theory Spec2Isabelle
  imports Complex_Main "HOL-Library.Word" "HOL-Library.AList"
begin

unbundle bit_operations_syntax

section \<open>Host values\<close>

text \<open>
  The scripting host's numbers are IEEE doubles. Every finite double is a rational, so a
  finite number is modelled by its rational value; the three special values are kept apart.
\<close>

datatype number = Finite rat | NaN | PosInf | NegInf

text \<open>A host string is a sequence of 16-bit code units.\<close>

type_synonym jsstring = "16 word list"

text \<open>
  Host values. Objects carry their identity (a reference): an \<open>Int64\<close> instance, an array
  (the only objects with an own \<open>length\<close> property that the model covers) with its elements,
  an object carrying an own \<open>$handle\<close> property (what a class constructor builds), and any
  other object.
\<close>

datatype jsval =
    JUndefined
  | JNull
  | JBool bool
  | JNum number
  | JStr jsstring
  | JInt64 nat
  | JArray nat "jsval list"
  | JInstance nat
  | JObject nat

text \<open>\<open>throw new Error(msg)\<close>, and the \<open>TypeError\<close> the host raises itself.\<close>

datatype error = Error string | TypeError

text \<open>\<open>Number.isInteger(v)\<close>\<close>

fun isInteger :: "jsval \<Rightarrow> bool" where
  "isInteger (JNum (Finite q)) = (of_int \<lfloor>q\<rfloor> = q)"
| "isInteger _ = False"

text \<open>\<open>v >= lo && v <= hi\<close> for a value that \<open>Number.isInteger\<close> has accepted.\<close>

fun between :: "jsval \<Rightarrow> rat \<Rightarrow> rat \<Rightarrow> bool" where
  "between (JNum (Finite q)) lo hi = (q \<ge> lo \<and> q \<le> hi)"
| "between _ lo hi = False"

text \<open>The truth value of a host value (\<open>v ? a : b\<close>, \<open>!!v\<close>).\<close>

fun truthy :: "jsval \<Rightarrow> bool" where
  "truthy JUndefined = False"
| "truthy JNull = False"
| "truthy (JBool b) = b"
| "truthy (JNum (Finite q)) = (q \<noteq> 0)"
| "truthy (JNum NaN) = False"
| "truthy (JNum PosInf) = True"
| "truthy (JNum NegInf) = True"
| "truthy (JStr s) = (s \<noteq> [])"
| "truthy (JInt64 r) = True"
| "truthy (JArray r xs) = True"
| "truthy (JInstance r) = True"
| "truthy (JObject r) = True"

text \<open>\<open>String.fromCharCode(c)\<close> for a number: \<open>ToUint16\<close> truncates towards zero and
  wraps modulo \<open>2^16\<close>; \<open>NaN\<close> and the infinities give code unit 0.\<close>

fun truncate_rat :: "rat \<Rightarrow> int" where
  "truncate_rat q = (if q < 0 then - \<lfloor>- q\<rfloor> else \<lfloor>q\<rfloor>)"

fun fromCharCode :: "number \<Rightarrow> jsstring" where
  "fromCharCode (Finite q) = [word_of_int (truncate_rat q)]"
| "fromCharCode _ = [0]"

text \<open>\<open>s.charCodeAt(0)\<close>: the first code unit, \<open>NaN\<close> for the empty string, and a
  \<open>TypeError\<close> for a value that has no such method.\<close>

fun charCodeAt0 :: "jsval \<Rightarrow> error + number" where
  "charCodeAt0 (JStr []) = Inr NaN"
| "charCodeAt0 (JStr (c # cs)) = Inr (Finite (of_nat (unat c)))"
| "charCodeAt0 _ = Inl TypeError"

text \<open>The host's \<open>==\<close> on two values of the same type (on objects: the same reference);
  \<open>null == undefined\<close> holds as well. For operands of different types \<open>==\<close> coerces, which
  the model leaves out: \<open>None\<close>.\<close>

fun number_eq :: "number \<Rightarrow> number \<Rightarrow> bool" where
  "number_eq NaN b = False"
| "number_eq a NaN = False"
| "number_eq a b = (a = b)"

fun js_eq :: "jsval \<Rightarrow> jsval \<Rightarrow> bool option" where
  "js_eq JUndefined b = (case b of JUndefined \<Rightarrow> Some True | JNull \<Rightarrow> Some True | _ \<Rightarrow> None)"
| "js_eq JNull b = (case b of JUndefined \<Rightarrow> Some True | JNull \<Rightarrow> Some True | _ \<Rightarrow> None)"
| "js_eq (JBool x) b = (case b of JBool y \<Rightarrow> Some (x = y) | _ \<Rightarrow> None)"
| "js_eq (JNum x) b = (case b of JNum y \<Rightarrow> Some (number_eq x y) | _ \<Rightarrow> None)"
| "js_eq (JStr x) b = (case b of JStr y \<Rightarrow> Some (x = y) | _ \<Rightarrow> None)"
| "js_eq (JInt64 r) b = (case b of JInt64 r' \<Rightarrow> Some (r = r') | _ \<Rightarrow> None)"
| "js_eq (JArray r xs) b = (case b of JArray r' ys \<Rightarrow> Some (r = r') | _ \<Rightarrow> None)"
| "js_eq (JInstance r) b = (case b of JInstance r' \<Rightarrow> Some (r = r') | _ \<Rightarrow> None)"
| "js_eq (JObject r) b = (case b of JObject r' \<Rightarrow> Some (r = r') | _ \<Rightarrow> None)"

section \<open>TypeAdapter registry\<close>

datatype rawtype =
  T_uint8 | T_int8 | T_uint16 | T_int16 | T_int32 | T_int64 | T_float | T_double | T_void
  | T_pointer

text \<open>The nine object literals of \<open>getPrimitiveType\<close>, named by their \<open>case\<close> label.\<close>

datatype prim =
  P_boolean | P_byte | P_char | P_short | P_int | P_long | P_float | P_double | P_void

text \<open>
  What \<open>getPrimitiveType\<close>, \<open>getArrayType\<close> and \<open>getObjectType\<close> return (a \<open>jtype0\<close>), and
  what \<open>getTypeFromJniTypename\<close> makes of it by adding \<open>className\<close> (a \<open>jtype\<close>). An object
  literal is named by the place that builds it together with the variables its functions
  close over: the primitive, the element primitive of a primitive array, the (shortened)
  \<open>typename\<close>, \<open>unbox\<close> and \<open>elementType\<close> of an object array, the \<open>typename\<close> and \<open>unbox\<close> of
  a reference type. Its fields and functions are the accessors below.
\<close>

datatype jtype0 =
    PrimitiveType prim
  | PrimitiveArrayType prim
  | ObjectArrayType string bool jtype
  | ObjectType string bool
and jtype = JType (className: string) (literal: jtype0)

fun getPrimitiveType :: "string \<Rightarrow> jtype0 option" where
  "getPrimitiveType t =
    (if t = ''boolean'' then Some (PrimitiveType P_boolean)
     else if t = ''byte'' then Some (PrimitiveType P_byte)
     else if t = ''char'' then Some (PrimitiveType P_char)
     else if t = ''short'' then Some (PrimitiveType P_short)
     else if t = ''int'' then Some (PrimitiveType P_int)
     else if t = ''long'' then Some (PrimitiveType P_long)
     else if t = ''float'' then Some (PrimitiveType P_float)
     else if t = ''double'' then Some (PrimitiveType P_double)
     else if t = ''void'' then Some (PrimitiveType P_void)
     else None)"

text \<open>The field \<open>type\<close>.\<close>

fun prim_type :: "prim \<Rightarrow> rawtype" where
  "prim_type P_boolean = T_uint8"
| "prim_type P_byte = T_int8"
| "prim_type P_char = T_uint16"
| "prim_type P_short = T_int16"
| "prim_type P_int = T_int32"
| "prim_type P_long = T_int64"
| "prim_type P_float = T_float"
| "prim_type P_double = T_double"
| "prim_type P_void = T_void"

fun type0 :: "jtype0 \<Rightarrow> rawtype" where
  "type0 (PrimitiveType p) = prim_type p"
| "type0 _ = T_pointer"

text \<open>The field \<open>size\<close> (in words).\<close>

fun prim_size :: "prim \<Rightarrow> nat" where
  "prim_size P_long = 2"
| "prim_size P_double = 2"
| "prim_size P_void = 0"
| "prim_size _ = 1"

fun size0 :: "jtype0 \<Rightarrow> nat" where
  "size0 (PrimitiveType p) = prim_size p"
| "size0 _ = 1"

text \<open>The field \<open>byteSize\<close>, which only the primitives have.\<close>

fun prim_byteSize :: "prim \<Rightarrow> nat" where
  "prim_byteSize P_boolean = 1"
| "prim_byteSize P_byte = 1"
| "prim_byteSize P_char = 2"
| "prim_byteSize P_short = 2"
| "prim_byteSize P_int = 4"
| "prim_byteSize P_long = 8"
| "prim_byteSize P_float = 4"
| "prim_byteSize P_double = 8"
| "prim_byteSize P_void = 0"

fun byteSize0 :: "jtype0 \<Rightarrow> nat option" where
  "byteSize0 (PrimitiveType p) = Some (prim_byteSize p)"
| "byteSize0 _ = None"

text \<open>\<open>isCompatible\<close> of each primitive.\<close>

fun prim_isCompatible :: "prim \<Rightarrow> jsval \<Rightarrow> bool" where
  "prim_isCompatible P_boolean v = (case v of JBool b \<Rightarrow> True | _ \<Rightarrow> False)"
| "prim_isCompatible P_byte v = (isInteger v \<and> between v (- 128) 127)"
| "prim_isCompatible P_char v =
    (case v of
       JStr s \<Rightarrow>
         (if length s = 1
          then (let charCode = unat (hd s) in charCode \<ge> 0 \<and> charCode \<le> 65535)
          else False)
     | _ \<Rightarrow> False)"
| "prim_isCompatible P_short v = (isInteger v \<and> between v (- 32768) 32767)"
| "prim_isCompatible P_int v = (isInteger v \<and> between v (- 2147483648) 2147483647)"
| "prim_isCompatible P_long v =
    (case v of JNum n \<Rightarrow> True | JInt64 r \<Rightarrow> True | _ \<Rightarrow> False)"
| "prim_isCompatible P_float v = (case v of JNum n \<Rightarrow> True | _ \<Rightarrow> False)"
| "prim_isCompatible P_double v = (case v of JNum n \<Rightarrow> True | _ \<Rightarrow> False)"
| "prim_isCompatible P_void v = (v = JUndefined)"

text \<open>\<open>toJni\<close> and \<open>fromJni\<close> of each primitive, where the literal has them: only
  \<open>boolean\<close> and \<open>char\<close> do. \<open>fromJni\<close> receives the raw number of the wire type.\<close>

fun prim_toJni :: "prim \<Rightarrow> (jsval \<Rightarrow> error + number) option" where
  "prim_toJni P_boolean = Some (\<lambda>v. Inr (if truthy v then Finite 1 else Finite 0))"
| "prim_toJni P_char = Some (\<lambda>s. charCodeAt0 s)"
| "prim_toJni _ = None"

fun prim_fromJni :: "prim \<Rightarrow> (number \<Rightarrow> jsval) option" where
  "prim_fromJni P_boolean = Some (\<lambda>v. JBool (truthy (JNum v)))"
| "prim_fromJni P_char = Some (\<lambda>c. JStr (fromCharCode c))"
| "prim_fromJni _ = None"

text \<open>\<open>isCompatible\<close> of every descriptor. An object with an own \<open>length\<close> is an array.\<close>

fun isCompatible0 :: "jtype0 \<Rightarrow> jsval \<Rightarrow> bool"
and isCompatible :: "jtype \<Rightarrow> jsval \<Rightarrow> bool" where
  "isCompatible0 (PrimitiveType p) v = prim_isCompatible p v"
| "isCompatible0 (PrimitiveArrayType p) v =
    (case v of
       JNull \<Rightarrow> True
     | JArray r xs \<Rightarrow> list_all (prim_isCompatible p) xs
     | _ \<Rightarrow> False)"
| "isCompatible0 (ObjectArrayType typename unbox elementType) v =
    (case v of
       JNull \<Rightarrow> True
     | JArray r xs \<Rightarrow> list_all (isCompatible elementType) xs
     | _ \<Rightarrow> False)"
| "isCompatible0 (ObjectType typename unbox) v =
    (case v of
       JNull \<Rightarrow> True
     | JStr s \<Rightarrow> typename = ''java.lang.CharSequence'' \<or> typename = ''java.lang.String''
     | JInstance r \<Rightarrow> True
     | _ \<Rightarrow> False)"
| "isCompatible (JType cn b) v = isCompatible0 b v"

text \<open>Whether the literal has a \<open>toJni\<close> and a \<open>fromJni\<close> (they cost a local-frame slot).\<close>

fun has_toJni :: "jtype \<Rightarrow> bool" where
  "has_toJni (JType cn (PrimitiveType p)) = (prim_toJni p \<noteq> None)"
| "has_toJni _ = True"

fun has_fromJni :: "jtype \<Rightarrow> bool" where
  "has_fromJni (JType cn (PrimitiveType p)) = (prim_fromJni p \<noteq> None)"
| "has_fromJni _ = True"

text \<open>The eight names \<open>getArrayType\<close> switches on.\<close>

fun primitiveArray :: "string \<Rightarrow> prim option" where
  "primitiveArray t =
    (if t = ''[Z'' then Some P_boolean
     else if t = ''[B'' then Some P_byte
     else if t = ''[C'' then Some P_char
     else if t = ''[D'' then Some P_double
     else if t = ''[F'' then Some P_float
     else if t = ''[I'' then Some P_int
     else if t = ''[J'' then Some P_long
     else if t = ''[S'' then Some P_short
     else None)"

text \<open>\<open>typename[0] === 'L' && typename[typename.length - 1] === ';'\<close>, and the
  \<open>substring(1, typename.length - 1)\<close> taken when it holds.\<close>

definition isDescriptor :: "string \<Rightarrow> bool" where
  "isDescriptor t = (t \<noteq> [] \<and> hd t = CHR ''L'' \<and> last t = CHR '';'')"

definition stripDescriptor :: "string \<Rightarrow> string" where
  "stripDescriptor t = (if isDescriptor t then take (length t - 2) (drop 1 t) else t)"

text \<open>
  \<open>getTypeFromJniTypename(typename, unbox)\<close> with its inner \<open>getArrayType\<close>. \<open>unbox\<close> is
  \<open>None\<close> when the caller leaves it out, and then becomes true. \<open>getArrayType\<close> throws when
  its name does not start with a bracket.
\<close>

function getTypeFromJniTypename :: "string \<Rightarrow> bool option \<Rightarrow> error + jtype"
and getArrayType :: "string \<Rightarrow> bool \<Rightarrow> error + jtype0" where
  "getTypeFromJniTypename typename unbox =
    (let unbox' = (case unbox of None \<Rightarrow> True | Some u \<Rightarrow> u) in
     case getPrimitiveType typename of
       Some t \<Rightarrow> Inr (JType typename t)
     | None \<Rightarrow>
         (if typename \<noteq> [] \<and> hd typename = CHR ''[''
          then (case getArrayType typename unbox' of
                  Inl e \<Rightarrow> Inl e
                | Inr t \<Rightarrow> Inr (JType typename t))
          else Inr (JType (stripDescriptor typename)
                      (ObjectType (stripDescriptor typename) unbox'))))"
| "getArrayType typename unbox =
    (case primitiveArray typename of
       Some p \<Rightarrow> Inr (PrimitiveArrayType p)
     | None \<Rightarrow>
         (if typename \<noteq> [] \<and> hd typename = CHR ''[''
          then (case getTypeFromJniTypename (tl typename) (Some unbox) of
                  Inl e \<Rightarrow> Inl e
                | Inr elementType \<Rightarrow> Inr (ObjectArrayType (tl typename) unbox elementType))
          else Inl (Error (''Unsupported type here '' @ typename))))"
  by pat_completeness auto
termination
  by (relation "measure (\<lambda>x. case x of Inl (t, u) \<Rightarrow> 2 * length t + 1 | Inr (t, u) \<Rightarrow> 2 * length t)")
     (auto simp: neq_Nil_conv)


subsection \<open>Marshaling a primitive out and back\<close>

text \<open>
  The value that comes back when a host value is marshaled out with \<open>toJni\<close> and back with
  \<open>fromJni\<close>, a converter that the literal lacks being the identity. A converter of a
  primitive is only ever handed the number of its wire type; the model covers nothing else
  (\<open>None\<close>).
\<close>

definition roundtrip :: "prim \<Rightarrow> jsval \<Rightarrow> (error + jsval) option" where
  "roundtrip p v =
    (case prim_toJni p of
       None \<Rightarrow>
         (case prim_fromJni p of
            None \<Rightarrow> Some (Inr v)
          | Some fromJni \<Rightarrow> (case v of JNum raw \<Rightarrow> Some (Inr (fromJni raw)) | _ \<Rightarrow> None))
     | Some toJni \<Rightarrow>
         (case toJni v of
            Inl e \<Rightarrow> Some (Inl e)
          | Inr raw \<Rightarrow>
              (case prim_fromJni p of
                 None \<Rightarrow> Some (Inr (JNum raw))
               | Some fromJni \<Rightarrow> Some (Inr (fromJni raw)))))"

text \<open>
  The range of each Java primitive, as the specification words it: the two truth values, the
  integers of the signed 8-, 16-, 32- and 64-bit ranges, one 16-bit code unit, the numbers
  a single-precision float holds (a magnitude of at most \<open>(2 - 2^-23) * 2^127\<close>, the
  infinities and \<open>NaN\<close>), every number for \<open>double\<close>, and no value at all for \<open>void\<close>.
\<close>

fun in_range :: "prim \<Rightarrow> jsval \<Rightarrow> bool" where
  "in_range P_boolean v = (v = JBool True \<or> v = JBool False)"
| "in_range P_byte v = (\<exists>i::int. v = JNum (Finite (of_int i)) \<and> - 128 \<le> i \<and> i \<le> 127)"
| "in_range P_char v = (\<exists>c. v = JStr [c])"
| "in_range P_short v = (\<exists>i::int. v = JNum (Finite (of_int i)) \<and> - 32768 \<le> i \<and> i \<le> 32767)"
| "in_range P_int v =
    (\<exists>i::int. v = JNum (Finite (of_int i)) \<and> - 2147483648 \<le> i \<and> i \<le> 2147483647)"
| "in_range P_long v =
    ((\<exists>i::int. v = JNum (Finite (of_int i)) \<and> - (2 ^ 63) \<le> i \<and> i \<le> 2 ^ 63 - 1)
     \<or> (\<exists>r. v = JInt64 r))"
| "in_range P_float v =
    (case v of
       JNum (Finite q) \<Rightarrow> \<bar>q\<bar> \<le> (2 - 1 / 2 ^ 23) * 2 ^ 127
     | JNum _ \<Rightarrow> True
     | _ \<Rightarrow> False)"
| "in_range P_double v = (\<exists>n. v = JNum n)"
| "in_range P_void v = (v = JUndefined)"


declare getTypeFromJniTypename.simps [simp del] getArrayType.simps [simp del]

text \<open>
  The lookup as the host runs it. \<open>getTypeFromJniTypename\<close> ends by building a new object
  (\<open>result = {className: typename}\<close>, then the fields of \<open>type\<close>) and returns that; the factory
  keeps no table of descriptors. \<open>objects\<close> are the descriptor objects built so far, and a
  reference to one is its index.
\<close>

definition lookup :: "string \<Rightarrow> bool option \<Rightarrow> jtype list \<Rightarrow> (error + nat) \<times> jtype list" where
  "lookup typename unbox objects =
    (case getTypeFromJniTypename typename unbox of
       Inl e \<Rightarrow> (Inl e, objects)
     | Inr result \<Rightarrow> (Inr (length objects), objects @ [result]))"

text \<open>
  The type names the specification knows: the primitives, the primitive-array descriptors,
  reference types (\<open>Lcom.example.Foo;\<close> or a bare fully-qualified name) and object arrays
  (\<open>[L...;\<close> or \<open>[[...\<close>). A fully-qualified name is taken generously here, as any non-empty
  string of letters, digits, \<open>_\<close>, \<open>$\<close> and dots, so a name that is not known in this sense is
  not known in any stricter one.
\<close>

definition identifier_char :: "char \<Rightarrow> bool" where
  "identifier_char c =
    (let n = (of_char c :: nat) in
     (65 \<le> n \<and> n \<le> 90) \<or> (97 \<le> n \<and> n \<le> 122) \<or> (48 \<le> n \<and> n \<le> 57)
     \<or> c = CHR ''_'' \<or> c = CHR ''$'' \<or> c = CHR ''.'')"

definition qualified_name :: "string \<Rightarrow> bool" where
  "qualified_name t = (t \<noteq> [] \<and> list_all identifier_char t)"

definition reference_name :: "string \<Rightarrow> bool" where
  "reference_name t = (qualified_name t \<or> (isDescriptor t \<and> qualified_name (stripDescriptor t)))"

definition known_typename :: "string \<Rightarrow> bool" where
  "known_typename t =
    (getPrimitiveType t \<noteq> None \<or> primitiveArray t \<noteq> None \<or> reference_name t
     \<or> (t \<noteq> [] \<and> hd t = CHR ''['' \<and> (isDescriptor (tl t) \<or> (tl t \<noteq> [] \<and> hd (tl t) = CHR ''[''))))"

section \<open>The Java side and its references\<close>

text \<open>
  Modelled from the spec: the JNI accessor \<open>Env\<close> is an external collaborator, and its code
  is not among the sources. What the factory needs of it is modelled from the
  specification's words: a global reference is a JNI handle pinned until it is explicitly
  released, every global reference acquired is released exactly once, and \<open>GetSuperclass\<close>
  walks a class's superclasses up to \<open>null\<close>.

  A Java class carries its name, its superclass (none for a root) and the names of its
  declared methods and fields. A Java object is a class object, a reflected method or field
  (of a class, by position), or an instance of a class with an identity of its own.
\<close>

datatype jclass =
  JClass (jc_name: string) (jc_super: "jclass option") (jc_methods: "string list")
    (jc_fields: "string list")

datatype jobj = ClassObj jclass | MethodObj string nat | FieldObj string nat | Instance nat jclass

text \<open>
  A reference is local or global. Local references live in JNI frames, which are not
  tracked: a local reference is given by the object it refers to. A global reference is a
  slot of the table of pinned objects; a released slot holds nothing.
\<close>

datatype ref = Local jobj | Global nat

text \<open>
  A class wrapper: the constructor function \<open>klass\<close> that \<open>ensureClass\<close> builds, with its
  properties \<open>className\<close>, \<open>__name__\<close>, \<open>__handle__\<close>, \<open>__methods__\<close>, \<open>__fields__\<close> and
  \<open>__super__\<close> (the wrapper of the superclass, given by its name).
\<close>

record klass =
  k_className :: string
  k_name :: string
  k_handle :: ref
  k_methods :: "ref list"
  k_fields :: "ref list"
  k_super :: "string option"

section \<open>Methods and dispatchers\<close>

text \<open>\<open>CONSTRUCTOR_METHOD = 1\<close>, \<open>STATIC_METHOD = 2\<close>, \<open>INSTANCE_METHOD = 3\<close>.\<close>

datatype method_type = CONSTRUCTOR_METHOD | STATIC_METHOD | INSTANCE_METHOD

text \<open>
  What a class constructor (\<open>klass\<close>) builds: an object with the properties \<open>$classWrapper\<close>
  (the wrapper), \<open>$classHandle\<close>, \<open>$handle\<close>, which is \<open>null\<close> on a view of the class alone,
  and \<open>$weakRef\<close>. \<open>objId\<close> is the identity of the object.
\<close>

record jinstance =
  objId :: nat
  classWrapper :: klass
  classHandle :: ref
  handle :: "ref option"
  weakRef :: nat

text \<open>
  A method is a host function with properties. The function is either the one \<open>makeMethod\<close>
  generates, which calls the Java method \<open>methodId\<close> through JNI, or \<open>defaultValueOf\<close>,
  which returns \<open>this\<close>. The property \<open>type\<close> is \<open>mtype\<close>, and \<open>handle\<close> is \<open>m_handle\<close>.
\<close>

datatype body = JniCall nat | ReturnThis

record jmethod =
  methodName :: "string option"
  holder :: string
  mtype :: method_type
  m_handle :: "nat option"
  returnType :: jtype
  argumentTypes :: "jtype list"
  body :: body

definition makeMethod :: "string \<Rightarrow> string \<Rightarrow> method_type \<Rightarrow> nat \<Rightarrow> jtype \<Rightarrow> jtype list \<Rightarrow> jmethod" where
  "makeMethod klass name type methodId retType argTypes =
    \<lparr> methodName = Some name, holder = klass, mtype = type, m_handle = Some methodId,
      returnType = retType, argumentTypes = argTypes, body = JniCall methodId \<rparr>"

definition defaultValueOf :: "string \<Rightarrow> jtype \<Rightarrow> jmethod" where
  "defaultValueOf klass intType =
    \<lparr> methodName = None, holder = klass, mtype = INSTANCE_METHOD, m_handle = None,
      returnType = intType, argumentTypes = [], body = ReturnThis \<rparr>"

text \<open>The property \<open>canInvokeWith\<close>: of a method made by \<open>makeMethod\<close>, and of
  \<open>defaultValueOf\<close>.\<close>

definition canInvokeWith :: "jmethod \<Rightarrow> jsval list \<Rightarrow> bool" where
  "canInvokeWith m args =
    (case body m of
       JniCall methodId \<Rightarrow>
         (if length args \<noteq> length (argumentTypes m) then False
          else list_all (\<lambda>(t, a). isCompatible t a) (zip (argumentTypes m) args))
     | ReturnThis \<Rightarrow> length args = 0)"

text \<open>
  \<open>method.apply(this, arguments)\<close>. The function that \<open>makeMethod\<close> generates pushes a local
  frame, marshals the arguments, calls through JNI and marshals the result back; what that
  gives is up to the Java side, and is the parameter \<open>jni\<close> here.
\<close>

type_synonym jni = "nat \<Rightarrow> jinstance \<Rightarrow> jsval list \<Rightarrow> error + jsval"

definition apply_method :: "jni \<Rightarrow> jmethod \<Rightarrow> jinstance \<Rightarrow> jsval list \<Rightarrow> error + jsval" where
  "apply_method jni m this args =
    (case body m of
       JniCall methodId \<Rightarrow> jni methodId this args
     | ReturnThis \<Rightarrow> Inr (JInstance (objId this)))"

text \<open>A host string from the characters of a name.\<close>

definition js_string :: "string \<Rightarrow> jsstring" where
  "js_string s = map (\<lambda>c. of_nat (of_char c)) s"

text \<open>
  \<open>makeMethodDispatcher(name, methods)\<close>: the table \<open>candidates\<close> from the number of
  arguments to the methods of that arity, in their order, and the dispatcher \<open>f\<close> with its
  property \<open>overloads\<close>. Reading \<open>methods[0].holder\<close> of an empty list is a \<open>TypeError\<close>.
\<close>

record dispatcher =
  d_name :: string
  overloads :: "jmethod list"
  candidates :: "nat \<rightharpoonup> jmethod list"

definition addCandidate :: "(nat \<rightharpoonup> jmethod list) \<Rightarrow> jmethod \<Rightarrow> (nat \<rightharpoonup> jmethod list)" where
  "addCandidate cands m =
    (let numArgs = length (argumentTypes m) in
     case cands numArgs of
       None \<Rightarrow> cands(numArgs \<mapsto> [m])
     | Some grp \<Rightarrow> cands(numArgs \<mapsto> grp @ [m]))"

definition makeMethodDispatcher :: "string \<Rightarrow> jmethod list \<Rightarrow> error + dispatcher" where
  "makeMethodDispatcher name methods =
    (if methods = [] then Inl TypeError
     else Inr \<lparr> d_name = name, overloads = methods,
                candidates = foldl addCandidate Map.empty methods \<rparr>)"

text \<open>The loop of the dispatcher over the group of its arity, and the dispatcher's call.\<close>

fun tryGroup :: "jni \<Rightarrow> string \<Rightarrow> jinstance \<Rightarrow> jsval list \<Rightarrow> jmethod list \<Rightarrow> error + jsval" where
  "tryGroup jni name this args [] =
    Inl (Error (name @ '': argument types do not match any overload''))"
| "tryGroup jni name this args (m # grp) =
    (if canInvokeWith m args
     then (if mtype m = INSTANCE_METHOD \<and> \<not> (handle this \<noteq> None)
           then (if name = ''toString''
                 then Inr (JStr (js_string (''<'' @ k_name (classWrapper this) @ ''>'')))
                 else Inl (Error (name @ '': cannot call instance method without an instance'')))
           else apply_method jni m this args)
     else tryGroup jni name this args grp)"

definition call :: "jni \<Rightarrow> dispatcher \<Rightarrow> jinstance \<Rightarrow> jsval list \<Rightarrow> error + jsval" where
  "call jni f this args =
    (case candidates f (length args) of
       None \<Rightarrow> Inl (Error (d_name f @ '': argument count does not match any overload''))
     | Some grp \<Rightarrow> tryGroup jni (d_name f) this args grp)"

subsection \<open>Resolving the members of a class\<close>

text \<open>
  What reflection tells about a declared method, through \<open>Env\<close>: its id, its modifiers,
  whether it takes a variable number of arguments, and the names of its generic return and
  parameter types (of a parameter both \<open>getTypeName\<close> and \<open>getArrayTypeName\<close>). Each of
  the reflective steps can leave a Java exception pending or throw; it is then an \<open>Inl\<close>.
\<close>

record param =
  typeName :: "error + string"
  arrayTypeName :: "error + string"

record reflected =
  fromReflectedMethod :: nat
  modifiers :: "32 word"
  isVarArgs :: bool
  genericReturnType :: "error + string"
  genericParameterTypes :: "error + param list"

text \<open>The loop over the parameter types; the last one is read as an array for a
  variable-arity method.\<close>

fun resolveArgs :: "bool \<Rightarrow> param list \<Rightarrow> error + jtype list" where
  "resolveArgs varArgs [] = Inr []"
| "resolveArgs varArgs (t # ts) =
    (case (if varArgs \<and> ts = [] then arrayTypeName t else typeName t) of
       Inl e \<Rightarrow> Inl e
     | Inr argClassName \<Rightarrow>
         (case getTypeFromJniTypename argClassName None of
            Inl e \<Rightarrow> Inl e
          | Inr argType \<Rightarrow>
              (case resolveArgs varArgs ts of
                 Inl e \<Rightarrow> Inl e
               | Inr jsArgTypes \<Rightarrow> Inr (argType # jsArgTypes))))"

text \<open>
  The function mapped over the overloads in \<open>makeMethodFromOverloads\<close>: the method, or
  \<open>null\<close> (\<open>None\<close>) when anything in its \<open>try\<close> block throws. \<open>STATIC\<close> is \<open>Modifier.STATIC\<close>,
  which \<open>Env\<close> supplies.
\<close>

definition resolveOverload :: "32 word \<Rightarrow> string \<Rightarrow> string \<Rightarrow> reflected \<Rightarrow> jmethod option" where
  "resolveOverload STATIC klass name h =
    (let jsType = (if (modifiers h AND STATIC) \<noteq> 0 then STATIC_METHOD else INSTANCE_METHOD) in
     case genericReturnType h of
       Inl e \<Rightarrow> None
     | Inr retType \<Rightarrow>
         (case getTypeFromJniTypename retType None of
            Inl e \<Rightarrow> None
          | Inr jsRetType \<Rightarrow>
              (case genericParameterTypes h of
                 Inl e \<Rightarrow> None
               | Inr argTypes \<Rightarrow>
                   (case resolveArgs (isVarArgs h) argTypes of
                      Inl e \<Rightarrow> None
                    | Inr jsArgTypes \<Rightarrow>
                        Some (makeMethod klass name jsType (fromReflectedMethod h) jsRetType jsArgTypes)))))"

definition makeMethodFromOverloads ::
  "32 word \<Rightarrow> string \<Rightarrow> string \<Rightarrow> reflected list \<Rightarrow> error + dispatcher" where
  "makeMethodFromOverloads STATIC klass name handles =
    (let methods = map the (filter (\<lambda>m. m \<noteq> None) (map (resolveOverload STATIC klass name) handles)) in
     if length methods = 0 then Inl (Error ''No supported overloads'')
     else if name = ''valueOf''
     then (let hasDefaultValueOf =
                 list_ex (\<lambda>m. mtype m = INSTANCE_METHOD \<and> length (argumentTypes m) = 0) methods in
           if \<not> hasDefaultValueOf
           then (case getTypeFromJniTypename ''int'' None of
                   Inl e \<Rightarrow> Inl e
                 | Inr intType \<Rightarrow> makeMethodDispatcher name (methods @ [defaultValueOf klass intType]))
           else makeMethodDispatcher name methods)
     else makeMethodDispatcher name methods)"

text \<open>\<open>basename\<close>: the part of a class name after its last dot.\<close>

definition basename :: "string \<Rightarrow> string" where
  "basename cn = rev (takeWhile (\<lambda>c. c \<noteq> CHR ''.'') (rev cn))"

text \<open>
  \<open>makeConstructor\<close>. Of a declared constructor reflection tells the id and the names of
  the parameter types; what throws inside the \<open>try\<close> block of a constructor makes the loop
  \<open>continue\<close> with the next one.
\<close>

record reflected_constructor =
  c_methodId :: nat
  c_parameterTypes :: "error + (error + string) list"

fun resolveTypes :: "(error + string) list \<Rightarrow> error + jtype list" where
  "resolveTypes [] = Inr []"
| "resolveTypes (t # ts) =
    (case t of
       Inl e \<Rightarrow> Inl e
     | Inr n \<Rightarrow>
         (case getTypeFromJniTypename n None of
            Inl e \<Rightarrow> Inl e
          | Inr argType \<Rightarrow>
              (case resolveTypes ts of
                 Inl e \<Rightarrow> Inl e
               | Inr jsArgTypes \<Rightarrow> Inr (argType # jsArgTypes))))"

fun constructorLoop ::
  "string \<Rightarrow> jtype \<Rightarrow> jtype \<Rightarrow> reflected_constructor list \<Rightarrow> jmethod list \<times> jmethod list" where
  "constructorLoop name jsRetType jsVoidType [] = ([], [])"
| "constructorLoop name jsRetType jsVoidType (c # cs) =
    (let (jsCtorMethods, jsInitMethods) = constructorLoop name jsRetType jsVoidType cs in
     case c_parameterTypes c of
       Inl e \<Rightarrow> (jsCtorMethods, jsInitMethods)
     | Inr types \<Rightarrow>
         (case resolveTypes types of
            Inl e \<Rightarrow> (jsCtorMethods, jsInitMethods)
          | Inr jsArgTypes \<Rightarrow>
              (makeMethod name (basename name) CONSTRUCTOR_METHOD (c_methodId c) jsRetType jsArgTypes
                 # jsCtorMethods,
               makeMethod name (basename name) INSTANCE_METHOD (c_methodId c) jsVoidType jsArgTypes
                 # jsInitMethods)))"



text \<open>
  What it means for an overload to be supported, in the words of the claim: its return
  type and each of its parameter types resolve, that is, reflection names them. (The lookup
  of a name itself never fails.) The name read for the last parameter of a variable-arity
  method is the array one.
\<close>

fun param_names :: "bool \<Rightarrow> param list \<Rightarrow> (error + string) list" where
  "param_names varArgs [] = []"
| "param_names varArgs (t # ts) =
    (if varArgs \<and> ts = [] then arrayTypeName t else typeName t) # param_names varArgs ts"

definition supported :: "reflected \<Rightarrow> bool" where
  "supported h =
    (\<not> isl (genericReturnType h)
     \<and> (case genericParameterTypes h of
          Inl e \<Rightarrow> False
        | Inr ps \<Rightarrow> list_all (\<lambda>n. \<not> isl n) (param_names (isVarArgs h) ps)))"


section \<open>Process memory\<close>

text \<open>
  The memory of the process, byte by byte. The Android targets are little-endian, so a
  number of \<open>n\<close> bytes is stored lowest byte first. \<open>Memory.writeU32\<close> and its siblings keep
  the low bits of the number they are given.
\<close>

type_synonym memory = "nat \<Rightarrow> 8 word"

definition read_bytes :: "nat \<Rightarrow> nat \<Rightarrow> memory \<Rightarrow> 8 word list" where
  "read_bytes a n m = map m [a..<a + n]"

definition write_bytes :: "nat \<Rightarrow> 8 word list \<Rightarrow> memory \<Rightarrow> memory" where
  "write_bytes a bs m = (\<lambda>x. if a \<le> x \<and> x < a + length bs then bs ! (x - a) else m x)"

fun le_bytes :: "nat \<Rightarrow> nat \<Rightarrow> 8 word list" where
  "le_bytes 0 v = []"
| "le_bytes (Suc n) v = of_nat (v mod 256) # le_bytes n (v div 256)"

fun le_value :: "8 word list \<Rightarrow> nat" where
  "le_value [] = 0"
| "le_value (b # bs) = unat b + 256 * le_value bs"

definition readU32 :: "nat \<Rightarrow> memory \<Rightarrow> nat" where
  "readU32 a m = le_value (read_bytes a 4 m)"

definition writeU32 :: "nat \<Rightarrow> int \<Rightarrow> memory \<Rightarrow> memory" where
  "writeU32 a v m = write_bytes a (le_bytes 4 (nat (v mod 2 ^ 32))) m"

definition writeU16 :: "nat \<Rightarrow> int \<Rightarrow> memory \<Rightarrow> memory" where
  "writeU16 a v m = write_bytes a (le_bytes 2 (nat (v mod 2 ^ 16))) m"

definition readS32 :: "nat \<Rightarrow> memory \<Rightarrow> int" where
  "readS32 a m = (let u = int (readU32 a m) in if u < 2 ^ 31 then u else u - 2 ^ 32)"

definition writeS32 :: "nat \<Rightarrow> int \<Rightarrow> memory \<Rightarrow> memory" where
  "writeS32 a v m = write_bytes a (le_bytes 4 (nat (v mod 2 ^ 32))) m"

definition readPointer :: "nat \<Rightarrow> nat \<Rightarrow> memory \<Rightarrow> nat" where
  "readPointer pointerSize a m = le_value (read_bytes a pointerSize m)"

definition writePointer :: "nat \<Rightarrow> nat \<Rightarrow> nat \<Rightarrow> memory \<Rightarrow> memory" where
  "writePointer pointerSize a v m = write_bytes a (le_bytes pointerSize v) m"

text \<open>\<open>Memory.copy(dst, src, n)\<close>\<close>

definition copy :: "nat \<Rightarrow> nat \<Rightarrow> nat \<Rightarrow> memory \<Rightarrow> memory" where
  "copy dst src n m = write_bytes dst (read_bytes src n m) m"

section \<open>The factory and its state\<close>

datatype flavor = Dalvik | Art

text \<open>The four words of an \<open>ArtMethod\<close> that the hook touches, and where they lie.\<close>

record art_method_info =
  jniCode :: nat
  accessFlags :: int
  quickCode :: nat
  interpreterCode :: nat

record art_method_offset =
  off_jniCode :: nat
  off_accessFlags :: nat
  off_quickCode :: nat
  off_interpreterCode :: nat

text \<open>
  What \<open>getApi()\<close> and the version probes supply, all external: the flavor, the pointer
  size, \<open>dvmUseJNIBridge\<close> (a VM function, seen by its effect on memory), the address of the
  native callback that \<open>implement(f, fn)\<close> builds around a replacement, the offsets into an
  \<open>ArtMethod\<close>, the address of the runtime instance pointer, the offsets of the class linker
  in the runtime and of the generic JNI trampoline in the class linker (absent when the
  spec for the VM version is unknown), and \<open>artInterpreterToCompiledCodeBridge\<close>.
\<close>

record api =
  flavor :: flavor
  pointerSize :: nat
  dvmUseJNIBridge :: "nat \<Rightarrow> nat \<Rightarrow> memory \<Rightarrow> memory"
  implement :: "nat \<Rightarrow> nat \<Rightarrow> nat"
  artMethodOffset :: art_method_offset
  runtime_instance_ptr :: nat
  runtime_classLinker :: "nat option"
  classLinker_quickGenericJniTrampoline :: "nat option"
  artInterpreterToCompiledCodeBridge :: nat

text \<open>
  The variables that a method function made by \<open>makeMethod\<close> closes over: its arguments
  \<open>methodId\<close>, \<open>type\<close> and \<open>argTypes\<close>, and \<open>dalvikTargetMethodId\<close>, \<open>dalvikOriginalMethod\<close>,
  \<open>artOriginalMethodInfo\<close> and \<open>implementation\<close>.
\<close>

record closure =
  cl_methodId :: nat
  cl_type :: method_type
  cl_argTypes :: "jtype list"
  dalvikTargetMethodId :: nat
  dalvikOriginalMethod :: "nat option"
  artOriginalMethodInfo :: "art_method_info option"
  implementation :: "nat option"

text \<open>An entry of \<open>patchedClasses\<close>; \<open>targetMethods\<close> lists method functions by method id.\<close>

record patched_class =
  classObject :: nat
  vtablePtr :: nat
  vtableCountPtr :: nat
  vtable :: nat
  vtableCount :: int
  shadowVtable :: nat
  shadowVtableCount :: int
  targetMethods :: "(nat \<times> nat) list"

text \<open>
  The state that the factory's operations read and change: the memory and the point from
  which \<open>Memory.alloc\<close> and \<open>Memory.dup\<close> hand out fresh memory; the pinned global
  references, the classes \<open>FindClass\<close> finds (by their name with slashes), the destructors
  bound by \<open>WeakRef.bind\<close> (each the handles it will release) and the number of host objects
  built so far; the factory's \<open>classes\<close>, \<open>patchedClasses\<close> (both in the order of insertion),
  \<open>patchedMethods\<close> and \<open>loader\<close>; and the closures of the method functions, by the
  identity of the function.
\<close>

record world =
  memory :: memory
  next_alloc :: nat
  globals :: "jobj option list"
  findable :: "string \<Rightarrow> jclass option"
  weakRefs :: "ref list list"
  next_object :: nat
  classes :: "(string \<times> klass) list"
  patchedClasses :: "(nat \<times> patched_class) list"
  patchedMethods :: "nat set"
  loader :: "jinstance option"
  closures :: "nat \<rightharpoonup> closure"

text \<open>\<open>Memory.dup(a, n)\<close>: a fresh block with a copy of \<open>n\<close> bytes from \<open>a\<close>.\<close>

definition dup :: "nat \<Rightarrow> nat \<Rightarrow> world \<Rightarrow> nat \<times> world" where
  "dup a n w =
    (next_alloc w,
     w\<lparr> memory := copy (next_alloc w) a n (memory w), next_alloc := next_alloc w + n \<rparr>)"

section \<open>The hooking engine\<close>

definition DVM_METHOD_SIZE :: nat where "DVM_METHOD_SIZE = 56"
definition DVM_METHOD_OFFSET_ACCESS_FLAGS :: nat where "DVM_METHOD_OFFSET_ACCESS_FLAGS = 4"
definition DVM_METHOD_OFFSET_REGISTERS_SIZE :: nat where "DVM_METHOD_OFFSET_REGISTERS_SIZE = 10"
definition DVM_METHOD_OFFSET_OUTS_SIZE :: nat where "DVM_METHOD_OFFSET_OUTS_SIZE = 12"
definition DVM_METHOD_OFFSET_INS_SIZE :: nat where "DVM_METHOD_OFFSET_INS_SIZE = 14"
definition DVM_METHOD_OFFSET_JNI_ARG_INFO :: nat where "DVM_METHOD_OFFSET_JNI_ARG_INFO = 36"
definition kAccNative :: "32 word" where "kAccNative = 0x0100"
definition kAccFastNative :: "32 word" where "kAccFastNative = 0x00080000"

text \<open>The host's \<open>|\<close> on an unsigned 32-bit number read from memory: the result is a
  signed 32-bit number.\<close>

definition bit_or :: "nat \<Rightarrow> 32 word \<Rightarrow> int" where
  "bit_or n flags = sint ((of_nat n :: 32 word) OR flags)"

text \<open>\<open>fetchMethod\<close> and \<open>patchMethod\<close>: the four words, read and written in the order
  \<open>jniCode\<close>, \<open>accessFlags\<close>, \<open>quickCode\<close>, \<open>interpreterCode\<close>.\<close>

definition fetchMethod :: "api \<Rightarrow> nat \<Rightarrow> memory \<Rightarrow> art_method_info" where
  "fetchMethod api methodId m =
    \<lparr> jniCode = readPointer (pointerSize api) (methodId + off_jniCode (artMethodOffset api)) m,
      accessFlags = int (readU32 (methodId + off_accessFlags (artMethodOffset api)) m),
      quickCode = readPointer (pointerSize api) (methodId + off_quickCode (artMethodOffset api)) m,
      interpreterCode =
        readPointer (pointerSize api) (methodId + off_interpreterCode (artMethodOffset api)) m \<rparr>"

definition patchMethod :: "api \<Rightarrow> nat \<Rightarrow> art_method_info \<Rightarrow> memory \<Rightarrow> memory" where
  "patchMethod api methodId patches m =
    writePointer (pointerSize api) (methodId + off_interpreterCode (artMethodOffset api))
      (interpreterCode patches)
      (writePointer (pointerSize api) (methodId + off_quickCode (artMethodOffset api))
         (quickCode patches)
         (writeU32 (methodId + off_accessFlags (artMethodOffset api)) (accessFlags patches)
            (writePointer (pointerSize api) (methodId + off_jniCode (artMethodOffset api))
               (jniCode patches) m)))"

text \<open>The search for the runtime's own generic JNI trampoline in
  \<open>replaceArtImplementation\<close>: the pointer, or the error message.\<close>

definition findTrampoline :: "api \<Rightarrow> memory \<Rightarrow> string + nat" where
  "findTrampoline api m =
    (case runtime_classLinker api of
       None \<Rightarrow> Inl ''unknown Runtime and/or ClassLinker spec for the current VM version''
     | Some classLinkerOffset \<Rightarrow>
         (case classLinker_quickGenericJniTrampoline api of
            None \<Rightarrow> Inl ''unknown Runtime and/or ClassLinker spec for the current VM version''
          | Some trampolineOffset \<Rightarrow>
              (let runtime = readPointer (pointerSize api) (runtime_instance_ptr api) m in
               if runtime \<noteq> 0
               then (let classLinker = readPointer (pointerSize api) (runtime + classLinkerOffset) m in
                     if classLinker \<noteq> 0
                     then (let ptr = readPointer (pointerSize api) (classLinker + trampolineOffset) m in
                           if ptr \<noteq> 0 then Inr ptr
                           else Inl ''runtime->classlinker->quick_generic_jni_trampoline == null'')
                     else Inl ''runtime->classlinker == null'')
               else Inl ''runtime == null'')))"

text \<open>
  \<open>replaceArtImplementation(fn)\<close> of the method function \<open>f\<close>; \<open>fn\<close> is the replacement or
  \<open>null\<close>. It returns the error thrown, if any, and the state it leaves.
\<close>

definition replaceArtImplementation :: "api \<Rightarrow> nat \<Rightarrow> nat option \<Rightarrow> world \<Rightarrow> error option \<times> world" where
  "replaceArtImplementation api f fn w =
    (case closures w f of
       None \<Rightarrow> (None, w)
     | Some c \<Rightarrow>
         if fn = None \<and> artOriginalMethodInfo c = None then (None, w)
         else
           (let methodId = cl_methodId c;
                original = (case artOriginalMethodInfo c of
                              None \<Rightarrow> fetchMethod api methodId (memory w)
                            | Some info \<Rightarrow> info)
            in case fn of
                 Some fn' \<Rightarrow>
                   (let c' = c\<lparr> artOriginalMethodInfo := Some original,
                                implementation := Some (implement api f fn') \<rparr>
                    in case findTrampoline api (memory w) of
                         Inl errorMessage \<Rightarrow>
                           (Some (Error (''Cannot find the correct copy of quick generic jni trampoline: ''
                                          @ errorMessage)),
                            w\<lparr> closures := (closures w)(f \<mapsto> c') \<rparr>)
                       | Inr artQuickGenericJniTrampoline \<Rightarrow>
                           (None,
                            w\<lparr> memory :=
                                 patchMethod api methodId
                                   \<lparr> jniCode = implement api f fn',
                                     accessFlags =
                                       bit_or (readU32 (methodId + off_accessFlags (artMethodOffset api))
                                                 (memory w))
                                         (kAccNative OR kAccFastNative),
                                     quickCode = artQuickGenericJniTrampoline,
                                     interpreterCode = artInterpreterToCompiledCodeBridge api \<rparr>
                                   (memory w),
                               closures := (closures w)(f \<mapsto> c'),
                               patchedMethods := insert f (patchedMethods w) \<rparr>))
               | None \<Rightarrow>
                   (None,
                    w\<lparr> patchedMethods := patchedMethods w - {f},
                       memory := patchMethod api methodId original (memory w),
                       closures := (closures w)(f \<mapsto> c\<lparr> artOriginalMethodInfo := Some original,
                                                        implementation := None \<rparr>) \<rparr>)))"

text \<open>\<open>replaceDalvikImplementation(fn)\<close> of the method function \<open>f\<close>.\<close>

definition argsSize :: "closure \<Rightarrow> nat" where
  "argsSize c =
    (let s = foldl (\<lambda>acc t. acc + size0 (literal t)) 0 (cl_argTypes c) in
     if cl_type c = INSTANCE_METHOD then s + 1 else s)"

definition replaceDalvikImplementation :: "api \<Rightarrow> nat \<Rightarrow> nat option \<Rightarrow> world \<Rightarrow> world" where
  "replaceDalvikImplementation api f fn w =
    (case closures w f of
       None \<Rightarrow> w
     | Some c \<Rightarrow>
         if fn = None \<and> dalvikOriginalMethod c = None then w
         else
           (let methodId = cl_methodId c;
                (original, target, w1) =
                  (case dalvikOriginalMethod c of
                     None \<Rightarrow>
                       (let (orig, wa) = dup methodId DVM_METHOD_SIZE w;
                            (targ, wb) = dup methodId DVM_METHOD_SIZE wa
                        in (orig, targ, wb))
                   | Some orig \<Rightarrow> (orig, dalvikTargetMethodId c, w));
                c1 = c\<lparr> dalvikOriginalMethod := Some original, dalvikTargetMethodId := target \<rparr>
            in case fn of
                 Some fn' \<Rightarrow>
                   (let flags = bit_or (readU32 (methodId + DVM_METHOD_OFFSET_ACCESS_FLAGS) (memory w1))
                                  kAccNative;
                        registersSize = int (argsSize c);
                        outsSize = 0;
                        insSize = int (argsSize c);
                        jniArgInfo = 0x80000000;
                        m1 = writeU32 (methodId + DVM_METHOD_OFFSET_ACCESS_FLAGS) flags (memory w1);
                        m2 = writeU16 (methodId + DVM_METHOD_OFFSET_REGISTERS_SIZE) registersSize m1;
                        m3 = writeU16 (methodId + DVM_METHOD_OFFSET_OUTS_SIZE) outsSize m2;
                        m4 = writeU16 (methodId + DVM_METHOD_OFFSET_INS_SIZE) insSize m3;
                        m5 = writeU32 (methodId + DVM_METHOD_OFFSET_JNI_ARG_INFO) jniArgInfo m4;
                        m6 = dvmUseJNIBridge api methodId (implement api f fn') m5
                    in w1\<lparr> memory := m6,
                           closures := (closures w1)(f \<mapsto> c1\<lparr> implementation := Some (implement api f fn') \<rparr>),
                           patchedMethods := insert f (patchedMethods w1) \<rparr>)
               | None \<Rightarrow>
                   w1\<lparr> patchedMethods := patchedMethods w1 - {f},
                       memory := copy methodId original DVM_METHOD_SIZE (memory w1),
                       closures := (closures w1)(f \<mapsto> c1\<lparr> implementation := None \<rparr>) \<rparr>))"

text \<open>
  The setter of the property \<open>implementation\<close> of the method function \<open>f\<close>: it throws for a
  constructor, and is otherwise the replacement function of the flavor.
\<close>

definition set_implementation :: "api \<Rightarrow> nat \<Rightarrow> nat option \<Rightarrow> world \<Rightarrow> error option \<times> world" where
  "set_implementation api f fn w =
    (case closures w f of
       None \<Rightarrow> (None, w)
     | Some c \<Rightarrow>
         if cl_type c = CONSTRUCTOR_METHOD
         then (Some (Error ''Reimplementing $new is not possible. Please replace implementation of $init instead.''), w)
         else if flavor api = Art then replaceArtImplementation api f fn w
         else (None, replaceDalvikImplementation api f fn w))"

subsection \<open>Disposal\<close>

text \<open>
  \<open>patchedMethods\<close> is a \<open>Set\<close>. A \<open>Set\<close> has a \<open>size\<close> and no \<open>length\<close>, so reading
  \<open>patchedMethods.length\<close> gives \<open>undefined\<close>; it has no \<open>pop\<close> either, so calling it is a
  \<open>TypeError\<close>. \<open>x > 0\<close> turns \<open>x\<close> into a number first: \<open>undefined\<close> becomes \<open>NaN\<close>, and no
  comparison with \<open>NaN\<close> holds. (Strings and objects are not covered.)
\<close>

definition Set_length :: "nat set \<Rightarrow> jsval" where
  "Set_length S = JUndefined"

fun greater_than_zero :: "jsval \<Rightarrow> bool option" where
  "greater_than_zero JUndefined = Some False"
| "greater_than_zero JNull = Some False"
| "greater_than_zero (JBool b) = Some b"
| "greater_than_zero (JNum (Finite q)) = Some (q > 0)"
| "greater_than_zero (JNum NaN) = Some False"
| "greater_than_zero (JNum PosInf) = Some True"
| "greater_than_zero (JNum NegInf) = Some False"
| "greater_than_zero _ = None"

text \<open>\<open>env.deleteGlobalRef\<close>: the slot is released.\<close>

definition deleteGlobalRef :: "ref \<Rightarrow> world \<Rightarrow> world" where
  "deleteGlobalRef r w =
    (case r of
       Global g \<Rightarrow> w\<lparr> globals := (globals w)[g := None] \<rparr>
     | Local obj \<Rightarrow> w)"

text \<open>The loop over \<open>targetMethods\<close> of an entry, the loop over \<open>patchedClasses\<close> and the
  loop over \<open>classes\<close>.\<close>

fun restoreTargets :: "api \<Rightarrow> (nat \<times> nat) list \<Rightarrow> world \<Rightarrow> error option \<times> world" where
  "restoreTargets api [] w = (None, w)"
| "restoreTargets api ((methodId, f) # rest) w =
    (case set_implementation api f None w of
       (Some e, w') \<Rightarrow> (Some e, w')
     | (None, w') \<Rightarrow> restoreTargets api rest w')"

fun restoreClasses :: "api \<Rightarrow> (nat \<times> patched_class) list \<Rightarrow> world \<Rightarrow> error option \<times> world" where
  "restoreClasses api [] w = (None, w)"
| "restoreClasses api ((entryId, entry) # rest) w =
    (let m1 = writePointer (pointerSize api) (vtablePtr entry) (vtable entry) (memory w);
         m2 = writeS32 (vtableCountPtr entry) (vtableCount entry) m1
     in case restoreTargets api (targetMethods entry) (w\<lparr> memory := m2 \<rparr>) of
          (Some e, w') \<Rightarrow> (Some e, w')
        | (None, w') \<Rightarrow>
            restoreClasses api rest (w'\<lparr> patchedClasses := AList.delete entryId (patchedClasses w') \<rparr>))"

fun releaseClasses :: "(string \<times> klass) list \<Rightarrow> world \<Rightarrow> world" where
  "releaseClasses [] w = w"
| "releaseClasses ((classId, k) # rest) w =
    (let w1 = foldl (\<lambda>w m. deleteGlobalRef m w) w (k_methods k);
         w2 = foldl (\<lambda>w f. deleteGlobalRef f w) w1 (k_fields k);
         w3 = deleteGlobalRef (k_handle k) w2
     in releaseClasses rest (w3\<lparr> classes := AList.delete classId (classes w3) \<rparr>))"

text \<open>\<open>dispose(env)\<close>\<close>

definition dispose :: "api \<Rightarrow> world \<Rightarrow> error option \<times> world" where
  "dispose api w =
    (case greater_than_zero (Set_length (patchedMethods w)) of
       Some True \<Rightarrow> (Some TypeError, w)
     | _ \<Rightarrow>
         (case restoreClasses api (patchedClasses w) w of
            (Some e, w1) \<Rightarrow> (Some e, w1)
          | (None, w1) \<Rightarrow> (None, releaseClasses (classes w1) w1)))"

section \<open>The class cache and the wrapper factory\<close>

text \<open>
  Modelled from the spec: what references refer to, and the \<open>Env\<close> calls
  \<open>NewGlobalRef\<close>, \<open>IsInstanceOf\<close> and \<open>GetClassName\<close>, whose code is not among the sources.
  A new global reference takes a new slot, which pins what the given reference refers to
  (nothing, if that one is dangling). A null reference is an instance of every class, as in
  JNI; an instance belongs to its class and the superclasses of it (interfaces are not
  modelled), a class object to \<open>java.lang.Class\<close> and \<open>java.lang.Object\<close>.
\<close>

definition deref :: "world \<Rightarrow> ref \<Rightarrow> jobj option" where
  "deref w r =
    (case r of
       Local obj \<Rightarrow> Some obj
     | Global g \<Rightarrow> (if g < length (globals w) then globals w ! g else None))"

definition newGlobalRef :: "ref \<Rightarrow> world \<Rightarrow> ref \<times> world" where
  "newGlobalRef r w = (Global (length (globals w)), w\<lparr> globals := globals w @ [deref w r] \<rparr>)"

fun subclass_of :: "jclass \<Rightarrow> jclass \<Rightarrow> bool" where
  "subclass_of (JClass n super ms fs) d =
    (JClass n super ms fs = d \<or> (case super of None \<Rightarrow> False | Some sc \<Rightarrow> subclass_of sc d))"

definition isInstanceOf :: "world \<Rightarrow> ref option \<Rightarrow> ref \<Rightarrow> bool" where
  "isInstanceOf w h ch =
    (case h of
       None \<Rightarrow> True
     | Some r \<Rightarrow>
         (case deref w ch of
            Some (ClassObj d) \<Rightarrow>
              (case deref w r of
                 Some (Instance i c) \<Rightarrow> subclass_of c d
               | Some (ClassObj c) \<Rightarrow> jc_name d = ''java.lang.Class'' \<or> jc_name d = ''java.lang.Object''
               | _ \<Rightarrow> False)
          | _ \<Rightarrow> False))"

definition getClassName :: "world \<Rightarrow> ref option \<Rightarrow> string" where
  "getClassName w h =
    (case h of
       None \<Rightarrow> ''null''
     | Some r \<Rightarrow>
         (case deref w r of
            Some (ClassObj c) \<Rightarrow> jc_name c
          | Some (Instance i c) \<Rightarrow> jc_name c
          | Some (MethodObj n j) \<Rightarrow> ''java.lang.reflect.Method''
          | Some (FieldObj n j) \<Rightarrow> ''java.lang.reflect.Field''
          | None \<Rightarrow> ''null''))"


text \<open>
  \<open>new C(classHandle, handle)\<close>, the constructor that \<open>ensureClass\<close> generates: it pins the
  class handle, pins the handle unless it is \<open>null\<close>, and binds the destructor of the handles
  that are not \<open>null\<close>.
\<close>

definition construct :: "klass \<Rightarrow> ref \<Rightarrow> ref option \<Rightarrow> world \<Rightarrow> jinstance \<times> world" where
  "construct C ch h w =
    (let (classHandle', w1) = newGlobalRef ch w;
         (handle', w2) = (case h of
                            None \<Rightarrow> (None, w1)
                          | Some r \<Rightarrow> (let (g, w') = newGlobalRef r w1 in (Some g, w')));
         handles = (case handle' of None \<Rightarrow> [] | Some g \<Rightarrow> [g]) @ [classHandle']
     in (\<lparr> objId = next_object w2, classWrapper = C, classHandle = classHandle',
           handle = handle', weakRef = length (weakRefs w2) \<rparr>,
         w2\<lparr> next_object := Suc (next_object w2), weakRefs := weakRefs w2 @ [handles] \<rparr>))"







text \<open>
  \<open>cast(obj, klass)\<close>: \<open>obj\<close> is a handle or an object with an own \<open>$handle\<close>, \<open>klass\<close> a
  view of the class to cast to.
\<close>

datatype castable = Handle ref | Wrapper jinstance

definition cast :: "castable \<Rightarrow> jinstance \<Rightarrow> world \<Rightarrow> (error + jinstance) \<times> world" where
  "cast obj klass w =
    (let h = (case obj of Wrapper i \<Rightarrow> handle i | Handle r \<Rightarrow> Some r) in
     if isInstanceOf w h (classHandle klass)
     then (let C = classWrapper klass;
               (v, w') = construct C (k_handle C) h w
           in (Inr v, w'))
     else (Inl (Error (''Cast from '' @ [CHR 0x27] @ getClassName w h @ [CHR 0x27] @ '' to ''
                       @ [CHR 0x27] @ getClassName w (Some (classHandle klass)) @ [CHR 0x27]
                       @ '' isn'' @ [CHR 0x27] @ ''t possible'')), w))"

section \<open>Properties of the TypeAdapter registry\<close>

subsection \<open>Primitives\<close>

lemma isInteger_iff: "isInteger v \<longleftrightarrow> (\<exists>i::int. v = JNum (Finite (of_int i)))"
proof (cases v)
  case (JNum n)
  then show ?thesis by (cases n) (auto intro: exI[of _ "\<lfloor>_\<rfloor>"])
qed simp_all

lemma integer_between:
  "isInteger v \<and> between v (of_int lo) (of_int hi) \<longleftrightarrow>
   (\<exists>i::int. v = JNum (Finite (of_int i)) \<and> lo \<le> i \<and> i \<le> hi)"
  by (auto simp: isInteger_iff)

lemma truncate_rat_of_nat: "truncate_rat (of_nat n) = int n"
  by simp

lemma fromCharCode_charCode: "fromCharCode (Finite (of_nat (unat (c::16 word)))) = [c]"
  by (simp only: fromCharCode.simps truncate_rat_of_nat) simp

lemma code_unit_bound: "unat (c::16 word) \<le> 65535"
  using unsigned_less[of c, where ?'a = nat] by simp

lemma roundtrip_boolean: "roundtrip P_boolean (JBool b) = Some (Inr (JBool b))"
  by (simp add: roundtrip_def)

lemma roundtrip_char: "roundtrip P_char (JStr [c]) = Some (Inr (JStr [c]))"
  using fromCharCode_charCode[of c] by (simp add: roundtrip_def del: fromCharCode.simps)

lemma roundtrip_identity:
  "p \<noteq> P_boolean \<Longrightarrow> p \<noteq> P_char \<Longrightarrow> roundtrip p v = Some (Inr v)"
  by (cases p; simp add: roundtrip_def)

lemma js_eq_same: "v \<noteq> JNum NaN \<Longrightarrow> js_eq v v = Some True"
proof (cases v)
  case (JNum n)
  assume "v \<noteq> JNum NaN"
  with JNum show ?thesis by (cases n) simp_all
qed simp_all

lemma isCompatible_in_range:
  "p \<noteq> P_long \<Longrightarrow> p \<noteq> P_float \<Longrightarrow> prim_isCompatible p v = in_range p v"
  using integer_between[of v "- 128" 127] integer_between[of v "- 32768" 32767]
    integer_between[of v "- 2147483648" 2147483647]
  by (cases p; simp) (auto split: jsval.splits simp: length_Suc_conv code_unit_bound)

lemma roundtrip_compatible:
  assumes "prim_isCompatible p v"
  shows "roundtrip p v = Some (Inr v)"
proof (cases "p = P_boolean \<or> p = P_char")
  case False
  then show ?thesis by (simp add: roundtrip_identity)
next
  case True
  then show ?thesis
  proof
    assume p: "p = P_boolean"
    with assms obtain b where "v = JBool b" by (cases v) simp_all
    with p show ?thesis by (simp add: roundtrip_boolean)
  next
    assume p: "p = P_char"
    with assms obtain c where "v = JStr [c]"
      by (cases v) (auto simp: length_Suc_conv split: if_splits)
    with p show ?thesis by (simp add: roundtrip_char)
  qed
qed

text \<open>
  C9 (as amended). For every primitive and every compatible value other than \<open>NaN\<close>,
  marshaling out and back returns a value equal (\<open>==\<close>) to the one that went in. For
  \<open>boolean\<close>, \<open>byte\<close>, \<open>char\<close>, \<open>short\<close>, \<open>int\<close>, \<open>double\<close> and \<open>void\<close>, \<open>isCompatible\<close>
  holds exactly of the values of the primitive's range, so every value outside it is
  rejected. \<open>long\<close> makes no range check: it accepts every host number and every \<open>Int64\<close>.
\<close>

theorem primitive_marshaling:
  "(prim_isCompatible p v \<and> v \<noteq> JNum NaN \<longrightarrow>
      (\<exists>r. roundtrip p v = Some (Inr r) \<and> js_eq r v = Some True))
   \<and> (p \<noteq> P_long \<and> p \<noteq> P_float \<longrightarrow> (\<not> in_range p v \<longrightarrow> \<not> prim_isCompatible p v))
   \<and> (prim_isCompatible P_long v \<longleftrightarrow> (\<exists>n. v = JNum n) \<or> (\<exists>r. v = JInt64 r))"
proof (intro conjI impI)
  assume "prim_isCompatible p v \<and> v \<noteq> JNum NaN"
  then show "\<exists>r. roundtrip p v = Some (Inr r) \<and> js_eq r v = Some True"
    by (simp add: roundtrip_compatible js_eq_same)
next
  assume "p \<noteq> P_long \<and> p \<noteq> P_float" and "\<not> in_range p v"
  then show "\<not> prim_isCompatible p v" by (simp add: isCompatible_in_range)
next
  show "prim_isCompatible P_long v \<longleftrightarrow> (\<exists>n. v = JNum n) \<or> (\<exists>r. v = JInt64 r)"
    by (cases v) simp_all
qed

theorem primitive_marshaling_witness:
  "prim_isCompatible P_char (JStr [65]) \<and> JStr [65] \<noteq> JNum NaN
   \<and> (\<exists>r. roundtrip P_char (JStr [65]) = Some (Inr r) \<and> js_eq r (JStr [65]) = Some True)
   \<and> \<not> in_range P_byte (JNum (Finite 128)) \<and> \<not> prim_isCompatible P_byte (JNum (Finite 128))
   \<and> prim_isCompatible P_long (JInt64 0)"
proof -
  have a: "prim_isCompatible P_char (JStr [65]) \<and> JStr [65] \<noteq> JNum NaN" by simp
  have "of_int i \<noteq> (128::rat)" if "i \<le> 127" for i :: int
  proof
    assume "of_int i = (128::rat)"
    then have "(of_int i :: rat) = of_int 128" by simp
    then have "i = 128" by (simp only: of_int_eq_iff)
    with that show False by simp
  qed
  then have b: "\<not> in_range P_byte (JNum (Finite 128))" by auto
  from a b primitive_marshaling[of P_char "JStr [65]"] primitive_marshaling[of P_byte "JNum (Finite 128)"]
    primitive_marshaling[of P_long "JInt64 0"]
  show ?thesis by simp
qed

text \<open>
  The claim as stated fails twice. \<open>long\<close> accepts \<open>2^63\<close>, which is outside the 64-bit
  range. And \<open>long\<close> accepts \<open>NaN\<close>, which comes back as \<open>NaN\<close> and is not \<open>==\<close> to itself.
\<close>

theorem primitive_marshaling_counterexample:
  "prim_isCompatible P_long (JNum (Finite (2 ^ 63)))
   \<and> \<not> in_range P_long (JNum (Finite (2 ^ 63)))
   \<and> prim_isCompatible P_long (JNum NaN)
   \<and> roundtrip P_long (JNum NaN) = Some (Inr (JNum NaN))
   \<and> js_eq (JNum NaN) (JNum NaN) = Some False"
  by (simp add: roundtrip_def)


subsection \<open>The lookup\<close>

lemma lookup_succeeds:
  "\<exists>t. getTypeFromJniTypename typename unbox = Inr t"
  "typename \<noteq> [] \<and> hd typename = CHR ''['' \<longrightarrow> (\<exists>t0. getArrayType typename u = Inr t0)"
proof (induction typename unbox and typename u rule: getTypeFromJniTypename_getArrayType.induct)
  case (1 typename unbox)
  then show ?case
    by (auto simp: getTypeFromJniTypename.simps[of typename unbox] Let_def split: option.splits)
next
  case (2 typename unbox)
  then show ?case
    by (auto simp: getArrayType.simps[of typename unbox] split: option.splits)
qed

lemma lookup_reference:
  assumes "getPrimitiveType typename = None" and "\<not> (typename \<noteq> [] \<and> hd typename = CHR ''['')"
  shows "getTypeFromJniTypename typename unbox =
         Inr (JType (stripDescriptor typename) (ObjectType (stripDescriptor typename) (unbox \<noteq> Some False)))"
  using assms unfolding getTypeFromJniTypename.simps[of typename unbox]
  by (cases unbox) (auto simp del: getPrimitiveType.simps)

lemma lookup_twice:
  "\<exists>t. lookup typename unbox objects = (Inr (length objects), objects @ [t])
       \<and> lookup typename unbox (objects @ [t]) = (Inr (Suc (length objects)), objects @ [t, t])"
proof -
  obtain t where "getTypeFromJniTypename typename unbox = Inr t"
    using lookup_succeeds(1) by blast
  then show ?thesis by (simp add: lookup_def)
qed

text \<open>
  C8 (as amended). The type lookup never fails: every type name resolves to a descriptor,
  and a name that is no primitive and does not start with a bracket is taken as the name of
  a reference type as it stands (without \<open>L\<close> and \<open>;\<close> when it has both). No descriptor is
  cached: each lookup builds a new descriptor object, so two lookups of the same type name
  return two different objects, with the same contents.
\<close>

theorem type_lookup_total:
  "(\<exists>t. getTypeFromJniTypename typename unbox = Inr t)
   \<and> (getPrimitiveType typename = None \<and> \<not> (typename \<noteq> [] \<and> hd typename = CHR ''['') \<longrightarrow>
        getTypeFromJniTypename typename unbox =
        Inr (JType (stripDescriptor typename)
              (ObjectType (stripDescriptor typename) (unbox \<noteq> Some False))))
   \<and> (\<exists>i j objects' objects''.
        lookup typename unbox objects = (Inr i, objects')
        \<and> lookup typename unbox objects' = (Inr j, objects'')
        \<and> i \<noteq> j \<and> objects'' ! i = objects'' ! j)"
proof (intro conjI impI)
  show "\<exists>t. getTypeFromJniTypename typename unbox = Inr t"
    by (rule lookup_succeeds(1))
next
  assume "getPrimitiveType typename = None \<and> \<not> (typename \<noteq> [] \<and> hd typename = CHR ''['')"
  then show "getTypeFromJniTypename typename unbox =
        Inr (JType (stripDescriptor typename)
              (ObjectType (stripDescriptor typename) (unbox \<noteq> Some False)))"
    by (simp add: lookup_reference)
next
  obtain t where t: "lookup typename unbox objects = (Inr (length objects), objects @ [t])"
      "lookup typename unbox (objects @ [t]) = (Inr (Suc (length objects)), objects @ [t, t])"
    using lookup_twice by blast
  have "(objects @ [t, t]) ! length objects = (objects @ [t, t]) ! Suc (length objects)"
    by (simp add: nth_append)
  with t show "\<exists>i j objects' objects''.
        lookup typename unbox objects = (Inr i, objects')
        \<and> lookup typename unbox objects' = (Inr j, objects'')
        \<and> i \<noteq> j \<and> objects'' ! i = objects'' ! j"
    by (intro exI[of _ "length objects"] exI[of _ "Suc (length objects)"]
           exI[of _ "objects @ [t]"] exI[of _ "objects @ [t, t]"]) simp
qed

theorem type_lookup_total_witness:
  "getPrimitiveType ''java.lang.String'' = None
   \<and> \<not> (''java.lang.String'' \<noteq> [] \<and> hd ''java.lang.String'' = CHR ''['')
   \<and> getTypeFromJniTypename ''Ljava.lang.String;'' None =
       Inr (JType ''java.lang.String'' (ObjectType ''java.lang.String'' True))"
  using type_lookup_total[of "''Ljava.lang.String;''" None "[]"]
  by (simp add: stripDescriptor_def isDescriptor_def)

text \<open>
  The claim as stated fails twice. The name \<open>?\<close> is none of the names the specification
  knows, and its lookup succeeds, with a reference-type descriptor. And two lookups of \<open>int\<close>
  return two objects, the first and the second built, not one cached object.
\<close>

theorem type_lookup_counterexample:
  "\<not> known_typename ''?''
   \<and> getTypeFromJniTypename ''?'' None = Inr (JType ''?'' (ObjectType ''?'' True))
   \<and> fst (lookup ''int'' None []) = Inr 0
   \<and> fst (lookup ''int'' None (snd (lookup ''int'' None []))) = Inr 1"
  by (simp add: known_typename_def reference_name_def qualified_name_def identifier_char_def
      isDescriptor_def stripDescriptor_def getTypeFromJniTypename.simps lookup_def)


section \<open>Properties of the dispatcher\<close>

lemma addCandidate_apply:
  "addCandidate c m n =
    (if length (argumentTypes m) = n then Some ((case c n of None \<Rightarrow> [] | Some g \<Rightarrow> g) @ [m])
     else c n)"
  by (simp add: addCandidate_def Let_def split: option.splits)

lemma candidates_foldl:
  "foldl addCandidate c ms n =
    (if filter (\<lambda>m. length (argumentTypes m) = n) ms = [] then c n
     else Some ((case c n of None \<Rightarrow> [] | Some g \<Rightarrow> g) @ filter (\<lambda>m. length (argumentTypes m) = n) ms))"
proof (induction ms arbitrary: c)
  case Nil
  show ?case by simp
next
  case (Cons m ms)
  let ?b = "filter (\<lambda>m. length (argumentTypes m) = n) ms"
  have "foldl addCandidate c (m # ms) n = foldl addCandidate (addCandidate c m) ms n"
    by simp
  also have "\<dots> = (if ?b = [] then addCandidate c m n
      else Some ((case addCandidate c m n of None \<Rightarrow> [] | Some g \<Rightarrow> g) @ ?b))"
    by (rule Cons.IH)
  also have "\<dots> = (if filter (\<lambda>m. length (argumentTypes m) = n) (m # ms) = [] then c n
      else Some ((case c n of None \<Rightarrow> [] | Some g \<Rightarrow> g)
                 @ filter (\<lambda>m. length (argumentTypes m) = n) (m # ms)))"
    by (simp add: addCandidate_apply)
  finally show ?case .
qed

lemma candidates_bucket:
  "foldl addCandidate Map.empty ms n =
    (if filter (\<lambda>m. length (argumentTypes m) = n) ms = [] then None
     else Some (filter (\<lambda>m. length (argumentTypes m) = n) ms))"
  by (simp add: candidates_foldl)

lemma tryGroup_find:
  "tryGroup jni name this args grp =
    (case find (\<lambda>m. canInvokeWith m args) grp of
       None \<Rightarrow> Inl (Error (name @ '': argument types do not match any overload''))
     | Some m \<Rightarrow>
         (if mtype m = INSTANCE_METHOD \<and> handle this = None
          then (if name = ''toString''
                then Inr (JStr (js_string (''<'' @ k_name (classWrapper this) @ ''>'')))
                else Inl (Error (name @ '': cannot call instance method without an instance'')))
          else apply_method jni m this args))"
  by (induction grp) simp_all

lemma zip_all2: "length xs = length ys \<Longrightarrow> list_all (\<lambda>(t, a). P t a) (zip xs ys) = list_all2 P xs ys"
  by (induction xs ys rule: list_induct2) simp_all

lemma canInvokeWith_positional:
  assumes "body m = ReturnThis \<longrightarrow> argumentTypes m = []"
  shows "canInvokeWith m args = list_all2 isCompatible (argumentTypes m) args"
proof (cases "body m")
  case (JniCall i)
  then show ?thesis
    by (auto simp: canInvokeWith_def zip_all2 dest: list_all2_lengthD)
next
  case ReturnThis
  with assms show ?thesis by (simp add: canInvokeWith_def)
qed

lemma find_cong_set: "(\<And>x. x \<in> set xs \<Longrightarrow> P x = Q x) \<Longrightarrow> find P xs = find Q xs"
  by (induction xs) auto

text \<open>
  C6. A dispatcher made from \<open>methods\<close> is called with \<open>args\<close>. If no method has as many
  argument types as there are arguments, the call fails with the arity error. Otherwise the
  overload the call settles on is the first method of that arity, in the order of \<open>methods\<close>,
  whose argument types are compatible with the arguments position by position, and that is
  the one invoked; on a receiver without \<open>$handle\<close> an overload of instance kind is not
  run (C7). If no method of that arity is compatible, the call fails with the signature
  error.
\<close>

theorem dispatcher_selects_first_match:
  assumes f: "makeMethodDispatcher name methods = Inr f"
    and wf: "\<forall>m\<in>set methods. body m = ReturnThis \<longrightarrow> argumentTypes m = []"
  shows "(filter (\<lambda>m. length (argumentTypes m) = length args) methods = [] \<longrightarrow>
           call jni f this args = Inl (Error (name @ '': argument count does not match any overload'')))
       \<and> (filter (\<lambda>m. length (argumentTypes m) = length args) methods \<noteq> [] \<longrightarrow>
           (case find (\<lambda>m. list_all2 isCompatible (argumentTypes m) args)
                   (filter (\<lambda>m. length (argumentTypes m) = length args) methods) of
              None \<Rightarrow> call jni f this args =
                        Inl (Error (name @ '': argument types do not match any overload''))
            | Some m \<Rightarrow> call jni f this args =
                (if mtype m = INSTANCE_METHOD \<and> handle this = None
                 then (if name = ''toString''
                       then Inr (JStr (js_string (''<'' @ k_name (classWrapper this) @ ''>'')))
                       else Inl (Error (name @ '': cannot call instance method without an instance'')))
                 else apply_method jni m this args)))"
proof -
  let ?bucket = "filter (\<lambda>m. length (argumentTypes m) = length args) methods"
  from f have nm: "d_name f = name" and c: "candidates f = foldl addCandidate Map.empty methods"
    by (auto simp: makeMethodDispatcher_def split: if_splits)
  have same: "find (\<lambda>m. canInvokeWith m args) ?bucket
            = find (\<lambda>m. list_all2 isCompatible (argumentTypes m) args) ?bucket"
    using wf by (intro find_cong_set canInvokeWith_positional) auto
  show ?thesis
    by (simp add: call_def nm c candidates_bucket tryGroup_find same split: option.splits)
qed


theorem dispatcher_selects_first_match_witness:
  "(let M1 = makeMethod ''K'' ''m'' INSTANCE_METHOD 1 (JType ''void'' (PrimitiveType P_void))
               [JType ''int'' (PrimitiveType P_int)];
        M2 = makeMethod ''K'' ''m'' INSTANCE_METHOD 2 (JType ''void'' (PrimitiveType P_void))
               [JType ''java.lang.String'' (ObjectType ''java.lang.String'' True)];
        F = \<lparr> d_name = ''m'', overloads = [M1, M2],
              candidates = foldl addCandidate Map.empty [M1, M2] \<rparr>;
        J = (\<lambda>i this args. Inr (JNum (Finite (of_nat i))));
        T = \<lparr> objId = 7, classWrapper = \<lparr> k_className = ''K'', k_name = ''K'', k_handle = Global 0,
              k_methods = [], k_fields = [], k_super = None \<rparr>,
              classHandle = Global 1, handle = Some (Global 2), weakRef = 0 \<rparr>
    in makeMethodDispatcher ''m'' [M1, M2] = Inr F
       \<and> call J F T [JNum (Finite 42)] = Inr (JNum (Finite 1))
       \<and> call J F T [JStr (js_string ''x'')] = Inr (JNum (Finite 2))
       \<and> call J F T [JBool True] = Inl (Error ''m: argument types do not match any overload'')
       \<and> call J F T [] = Inl (Error ''m: argument count does not match any overload''))"
proof -
  define M1 where "M1 = makeMethod ''K'' ''m'' INSTANCE_METHOD 1 (JType ''void'' (PrimitiveType P_void))
               [JType ''int'' (PrimitiveType P_int)]"
  define M2 where "M2 = makeMethod ''K'' ''m'' INSTANCE_METHOD 2 (JType ''void'' (PrimitiveType P_void))
               [JType ''java.lang.String'' (ObjectType ''java.lang.String'' True)]"
  define F where "F = \<lparr> d_name = ''m'', overloads = [M1, M2],
              candidates = foldl addCandidate Map.empty [M1, M2] \<rparr>"
  define J :: jni where "J = (\<lambda>i this args. Inr (JNum (Finite (of_nat i))))"
  define T where "T = \<lparr> objId = 7, classWrapper = \<lparr> k_className = ''K'', k_name = ''K'', k_handle = Global 0,
              k_methods = [], k_fields = [], k_super = None \<rparr>,
              classHandle = Global 1, handle = Some (Global 2), weakRef = 0 \<rparr>"
  have f: "makeMethodDispatcher ''m'' [M1, M2] = Inr F"
    by (simp add: makeMethodDispatcher_def F_def)
  have wf: "\<forall>m\<in>set [M1, M2]. body m = ReturnThis \<longrightarrow> argumentTypes m = []"
    by (simp add: M1_def M2_def makeMethod_def)
  note t = dispatcher_selects_first_match[OF f wf, of _ J T]
  have "call J F T [JNum (Finite 42)] = Inr (JNum (Finite 1))"
    using t[of "[JNum (Finite 42)]"]
    by (simp add: M1_def M2_def makeMethod_def apply_method_def J_def T_def)
  moreover have "call J F T [JStr (js_string ''x'')] = Inr (JNum (Finite 2))"
    using t[of "[JStr (js_string ''x'')]"]
    by (simp add: M1_def M2_def makeMethod_def apply_method_def J_def T_def)
  moreover have "call J F T [JBool True] = Inl (Error ''m: argument types do not match any overload'')"
    using t[of "[JBool True]"]
    by (simp add: M1_def M2_def makeMethod_def)
  moreover have "call J F T [] = Inl (Error ''m: argument count does not match any overload'')"
    using t[of "[]"]
    by (simp add: M1_def M2_def makeMethod_def)
  ultimately show ?thesis
    using f unfolding Let_def M1_def M2_def F_def J_def T_def by simp
qed

text \<open>
  C7 (as amended). When the overload a call settles on is of instance kind and the receiver
  is a view of the class alone (\<open>$handle\<close> is \<open>null\<close>), the call raises an error, unless the
  dispatcher's name is \<open>toString\<close>: then it returns the literal \<open><\<close> + class name + \<open>>\<close>,
  whatever the number of arguments.
\<close>

theorem instance_method_on_class_view:
  assumes f: "makeMethodDispatcher name methods = Inr f"
    and "handle this = None"
    and "find (\<lambda>m. canInvokeWith m args)
           (filter (\<lambda>m. length (argumentTypes m) = length args) methods) = Some m"
    and "mtype m = INSTANCE_METHOD"
  shows "call jni f this args =
          (if name = ''toString''
           then Inr (JStr (js_string (''<'' @ k_name (classWrapper this) @ ''>'')))
           else Inl (Error (name @ '': cannot call instance method without an instance'')))"
proof -
  from f have nm: "d_name f = name" and c: "candidates f = foldl addCandidate Map.empty methods"
    by (auto simp: makeMethodDispatcher_def split: if_splits)
  from assms(3) have "filter (\<lambda>m. length (argumentTypes m) = length args) methods \<noteq> []"
    by auto
  with assms show ?thesis
    by (simp add: call_def nm c candidates_bucket tryGroup_find)
qed

theorem instance_method_on_class_view_witness:
  "(let M = makeMethod ''K'' ''size'' INSTANCE_METHOD 1 (JType ''int'' (PrimitiveType P_int)) [];
        S = makeMethod ''K'' ''toString'' INSTANCE_METHOD 2
              (JType ''java.lang.String'' (ObjectType ''java.lang.String'' True)) [];
        J = (\<lambda>i this args. Inr (JNum (Finite (of_nat i))));
        T = \<lparr> objId = 7, classWrapper = \<lparr> k_className = ''K'', k_name = ''K'', k_handle = Global 0,
              k_methods = [], k_fields = [], k_super = None \<rparr>,
              classHandle = Global 1, handle = None, weakRef = 0 \<rparr>
    in call J \<lparr> d_name = ''size'', overloads = [M], candidates = foldl addCandidate Map.empty [M] \<rparr> T []
         = Inl (Error ''size: cannot call instance method without an instance'')
       \<and> call J \<lparr> d_name = ''toString'', overloads = [S], candidates = foldl addCandidate Map.empty [S] \<rparr> T []
         = Inr (JStr (js_string ''<K>'')))"
proof -
  define M where "M = makeMethod ''K'' ''size'' INSTANCE_METHOD 1 (JType ''int'' (PrimitiveType P_int)) []"
  define S where "S = makeMethod ''K'' ''toString'' INSTANCE_METHOD 2
              (JType ''java.lang.String'' (ObjectType ''java.lang.String'' True)) []"
  define J :: jni where "J = (\<lambda>i this args. Inr (JNum (Finite (of_nat i))))"
  define T where "T = \<lparr> objId = 7, classWrapper = \<lparr> k_className = ''K'', k_name = ''K'', k_handle = Global 0,
              k_methods = [], k_fields = [], k_super = None \<rparr>,
              classHandle = Global 1, handle = None, weakRef = 0 \<rparr>"
  have "call J \<lparr> d_name = ''size'', overloads = [M], candidates = foldl addCandidate Map.empty [M] \<rparr> T []
         = Inl (Error ''size: cannot call instance method without an instance'')"
    using instance_method_on_class_view[of "''size''" "[M]" _ T "[]" M J]
    by (simp add: makeMethodDispatcher_def M_def makeMethod_def canInvokeWith_def T_def)
  moreover have "call J \<lparr> d_name = ''toString'', overloads = [S], candidates = foldl addCandidate Map.empty [S] \<rparr> T []
         = Inr (JStr (js_string ''<K>''))"
    using instance_method_on_class_view[of "''toString''" "[S]" _ T "[]" S J]
    by (simp add: makeMethodDispatcher_def S_def makeMethod_def canInvokeWith_def T_def)
  ultimately show ?thesis
    unfolding Let_def M_def S_def J_def T_def by simp
qed

text \<open>
  The claim as stated fails: the exception is not limited to calls with zero arguments.
  \<open>java.math.BigInteger\<close> declares the instance method \<open>toString(int)\<close>; called on the class
  with one argument it returns the literal and raises no error.
\<close>

theorem instance_method_on_class_view_counterexample:
  "(let S = makeMethod ''java.math.BigInteger'' ''toString'' INSTANCE_METHOD 2
              (JType ''java.lang.String'' (ObjectType ''java.lang.String'' True))
              [JType ''int'' (PrimitiveType P_int)];
        J = (\<lambda>i this args. Inr (JNum (Finite (of_nat i))));
        T = \<lparr> objId = 7, classWrapper = \<lparr> k_className = ''BigInteger'', k_name = ''java.math.BigInteger'', k_handle = Global 0,
              k_methods = [], k_fields = [], k_super = None \<rparr>,
              classHandle = Global 1, handle = None, weakRef = 0 \<rparr>;
        args = [JNum (Finite 16)]
    in mtype S = INSTANCE_METHOD \<and> handle T = None \<and> length args = 1 \<and> canInvokeWith S args
       \<and> call J \<lparr> d_name = ''toString'', overloads = [S],
                   candidates = foldl addCandidate Map.empty [S] \<rparr> T args
          = Inr (JStr (js_string ''<java.math.BigInteger>'')))"
  by (simp add: Let_def makeMethod_def canInvokeWith_def call_def addCandidate_def)


section \<open>Properties of the member resolver\<close>

lemma lookup_not_isl: "\<not> isl (getTypeFromJniTypename n u)"
  using lookup_succeeds(1)[of n u] by auto









lemma int_lookup: "getTypeFromJniTypename ''int'' None = Inr (JType ''int'' (PrimitiveType P_int))"
  by (simp add: getTypeFromJniTypename.simps)

lemma makeMethodFromOverloads_cases:
  "makeMethodFromOverloads STATIC klass name hs =
    (let ms = map the (filter (\<lambda>m. m \<noteq> None) (map (resolveOverload STATIC klass name) hs));
         ms' = (if name = ''valueOf''
                   \<and> \<not> list_ex (\<lambda>m. mtype m = INSTANCE_METHOD \<and> length (argumentTypes m) = 0) ms
                then ms @ [defaultValueOf klass (JType ''int'' (PrimitiveType P_int))] else ms)
     in if ms = [] then Inl (Error ''No supported overloads'')
        else Inr \<lparr> d_name = name, overloads = ms', candidates = foldl addCandidate Map.empty ms' \<rparr>)"
  by (simp add: makeMethodFromOverloads_def Let_def makeMethodDispatcher_def int_lookup)


lemma constructorLoop_types:
  "list_all (\<lambda>m. mtype m = CONSTRUCTOR_METHOD \<and> returnType m = r) (fst (constructorLoop name r v cs))
   \<and> list_all (\<lambda>m. mtype m = INSTANCE_METHOD \<and> returnType m = v) (snd (constructorLoop name r v cs))"
  by (induction cs) (auto simp: split_beta makeMethod_def split: sum.splits)





text \<open>
  C5. Among the resolved overloads named \<open>valueOf\<close>: when none is an instance method
  without arguments, the dispatcher's overloads are the resolved ones followed by one more,
  an instance method without arguments whose declared return type is \<open>int\<close> and whose call
  returns the receiver itself; when one is, the overloads are just the resolved ones.
\<close>

theorem valueOf_default_overload:
  assumes "makeMethodFromOverloads STATIC klass ''valueOf'' hs = Inr f"
  shows "(let methods = map the (filter (\<lambda>m. m \<noteq> None) (map (resolveOverload STATIC klass ''valueOf'') hs)) in
          if list_ex (\<lambda>m. mtype m = INSTANCE_METHOD \<and> argumentTypes m = []) methods
          then overloads f = methods
          else (\<exists>dv. overloads f = methods @ [dv]
                 \<and> mtype dv = INSTANCE_METHOD \<and> argumentTypes dv = []
                 \<and> returnType dv = JType ''int'' (PrimitiveType P_int)
                 \<and> canInvokeWith dv []
                 \<and> (\<forall>jni this. apply_method jni dv this [] = Inr (JInstance (objId this)))))"
proof -
  let ?ms = "map the (filter (\<lambda>m. m \<noteq> None) (map (resolveOverload STATIC klass ''valueOf'') hs))"
  let ?dv = "defaultValueOf klass (JType ''int'' (PrimitiveType P_int))"
  show ?thesis
  proof (cases "list_ex (\<lambda>m. mtype m = INSTANCE_METHOD \<and> argumentTypes m = []) ?ms")
    case True
    with assms have "overloads f = ?ms"
      by (auto simp: makeMethodFromOverloads_cases Let_def split: if_splits)
    with True show ?thesis by (simp add: Let_def)
  next
    case False
    with assms have "overloads f = ?ms @ [?dv]"
      by (auto simp: makeMethodFromOverloads_cases Let_def split: if_splits)
    moreover have "mtype ?dv = INSTANCE_METHOD \<and> argumentTypes ?dv = []
        \<and> returnType ?dv = JType ''int'' (PrimitiveType P_int) \<and> canInvokeWith ?dv []
        \<and> (\<forall>jni this. apply_method jni ?dv this [] = Inr (JInstance (objId this)))"
      by (simp add: defaultValueOf_def canInvokeWith_def apply_method_def)
    ultimately show ?thesis
      using False unfolding Let_def by (simp only: if_False) blast
  qed
qed

theorem valueOf_default_overload_witness:
  "(let static1 = \<lparr> fromReflectedMethod = 1, modifiers = 9, isVarArgs = False,
                     genericReturnType = Inr ''java.lang.Integer'',
                     genericParameterTypes = Inr [\<lparr> typeName = Inr ''int'', arrayTypeName = Inr ''[I'' \<rparr>] \<rparr>;
        T = \<lparr> objId = 7, classWrapper = \<lparr> k_className = ''Integer'', k_name = ''java.lang.Integer'', k_handle = Global 0,
              k_methods = [], k_fields = [], k_super = None \<rparr>,
              classHandle = Global 1, handle = Some (Global 2), weakRef = 0 \<rparr>;
        J = (\<lambda>i this args. Inr (JNum (Finite (of_nat i))))
    in \<exists>f dv. makeMethodFromOverloads 8 ''java.lang.Integer'' ''valueOf'' [static1] = Inr f
          \<and> length (overloads f) = 2 \<and> overloads f ! 1 = dv
          \<and> mtype dv = INSTANCE_METHOD \<and> argumentTypes dv = []
          \<and> returnType dv = JType ''int'' (PrimitiveType P_int)
          \<and> apply_method J dv T [] = Inr (JInstance 7))"
proof -
  define static1 where "static1 = \<lparr> fromReflectedMethod = 1, modifiers = 9, isVarArgs = False,
                     genericReturnType = Inr ''java.lang.Integer'',
                     genericParameterTypes = Inr [\<lparr> typeName = Inr ''int'', arrayTypeName = Inr ''[I'' \<rparr>] \<rparr>"
  obtain f where f: "makeMethodFromOverloads 8 ''java.lang.Integer'' ''valueOf'' [static1] = Inr f"
    by (simp add: makeMethodFromOverloads_cases Let_def static1_def resolveOverload_def
          getTypeFromJniTypename.simps stripDescriptor_def isDescriptor_def)
  have r: "resolveOverload 8 ''java.lang.Integer'' ''valueOf'' static1 =
      Some (makeMethod ''java.lang.Integer'' ''valueOf'' STATIC_METHOD 1
             (JType ''java.lang.Integer'' (ObjectType ''java.lang.Integer'' True))
             [JType ''int'' (PrimitiveType P_int)])"
    by (simp add: static1_def resolveOverload_def getTypeFromJniTypename.simps
          stripDescriptor_def isDescriptor_def)
  show ?thesis
    using valueOf_default_overload[OF f] f r
    unfolding Let_def static1_def[symmetric]
    by (auto simp: makeMethod_def)
qed


section \<open>Properties of the hooking engine\<close>

lemma length_read_bytes [simp]: "length (read_bytes a n m) = n"
  by (simp add: read_bytes_def)

lemma length_le_bytes [simp]: "length (le_bytes n v) = n"
  by (induction n arbitrary: v) simp_all

lemma read_bytes_nth: "i < n \<Longrightarrow> read_bytes a n m ! i = m (a + i)"
  by (simp add: read_bytes_def)

lemma read_bytes_cong:
  "(\<And>x. a \<le> x \<Longrightarrow> x < a + n \<Longrightarrow> m x = m' x) \<Longrightarrow> read_bytes a n m = read_bytes a n m'"
  by (simp add: read_bytes_def)



























lemma le_value_le_bytes: "le_value (le_bytes n v) = v mod 256 ^ n"
proof (induction n arbitrary: v)
  case 0
  show ?case by simp
next
  case (Suc n)
  have "unat (of_nat (v mod 256) :: 8 word) = v mod 256"
    by (simp add: unat_of_nat)
  then show ?case
    by (simp add: Suc mod_mult2_eq)
qed

lemma read_write_bytes: "read_bytes a (length bs) (write_bytes a bs m) = bs"
  by (rule nth_equalityI) (simp_all add: read_bytes_nth write_bytes_def)

lemma read_bytes_write_bytes_apart:
  "a + n \<le> b \<or> b + length bs \<le> a \<Longrightarrow> read_bytes a n (write_bytes b bs m) = read_bytes a n m"
  by (rule read_bytes_cong) (auto simp: write_bytes_def)

lemma readU32_writeU32: "readU32 a (writeU32 a v m) = nat (v mod 2 ^ 32)"
proof -
  have "read_bytes a 4 (write_bytes a (le_bytes 4 (nat (v mod 2 ^ 32))) m) = le_bytes 4 (nat (v mod 2 ^ 32))"
    using read_write_bytes[of a "le_bytes 4 (nat (v mod 2 ^ 32))" m] by simp
  moreover have "nat (v mod 2 ^ 32) < 2 ^ 32"
    by (simp add: nat_less_iff)
  ultimately show ?thesis
    by (simp add: readU32_def writeU32_def le_value_le_bytes)
qed

lemma readU32_writeU32_apart:
  "a + 4 \<le> b \<or> b + 4 \<le> a \<Longrightarrow> readU32 a (writeU32 b v m) = readU32 a m"
  by (simp add: readU32_def writeU32_def read_bytes_write_bytes_apart)

lemma readU32_writeU16_apart:
  "a + 4 \<le> b \<or> b + 2 \<le> a \<Longrightarrow> readU32 a (writeU16 b v m) = readU32 a m"
  by (simp add: readU32_def writeU16_def read_bytes_write_bytes_apart)

lemma readU32_copy_apart:
  "a + 4 \<le> dst \<or> dst + n \<le> a \<Longrightarrow> readU32 a (copy dst src n m) = readU32 a m"
  by (simp add: readU32_def copy_def read_bytes_write_bytes_apart)

lemma readU32_zero: "readU32 a (\<lambda>x. 0) = 0"
  by (simp add: readU32_def read_bytes_def upt_rec)



lemma deleteGlobalRef_keeps:
  "memory (deleteGlobalRef r w) = memory w \<and> patchedMethods (deleteGlobalRef r w) = patchedMethods w
   \<and> closures (deleteGlobalRef r w) = closures w"
  by (simp add: deleteGlobalRef_def split: ref.splits)

lemma deleteGlobalRefs_keep:
  "memory (foldl (\<lambda>w r. deleteGlobalRef r w) w rs) = memory w
   \<and> patchedMethods (foldl (\<lambda>w r. deleteGlobalRef r w) w rs) = patchedMethods w
   \<and> closures (foldl (\<lambda>w r. deleteGlobalRef r w) w rs) = closures w"
  by (induction rs arbitrary: w) (simp_all add: deleteGlobalRef_keeps)

lemma releaseClasses_keeps:
  "memory (releaseClasses cs w) = memory w \<and> patchedMethods (releaseClasses cs w) = patchedMethods w
   \<and> closures (releaseClasses cs w) = closures w"
proof (induction cs arbitrary: w)
  case Nil
  show ?case by simp
next
  case (Cons p cs)
  show ?case
    by (cases p) (simp add: Cons.IH Let_def deleteGlobalRefs_keep deleteGlobalRef_keeps)
qed

lemma dispose_without_patched_classes:
  assumes "patchedClasses w = []"
  shows "fst (dispose api w) = None \<and> memory (snd (dispose api w)) = memory w
         \<and> patchedMethods (snd (dispose api w)) = patchedMethods w
         \<and> closures (snd (dispose api w)) = closures w"
  using assms by (simp add: dispose_def Set_length_def releaseClasses_keeps)

text \<open>
  C1. The claim holds of the design and not of the code. \<open>dispose\<close> guards its first loop,
  the one meant to restore every hooked method, by \<open>patchedMethods.length > 0\<close>; as
  \<open>patchedMethods\<close> is a \<open>Set\<close> the loop never runs. Only the methods listed in
  \<open>patchedClasses\<close> are restored, and a method is listed there only once it has been called
  after the hook (on Dalvik; never on ART). Here a method is hooked and the factory disposed
  at once: \<open>dispose\<close> returns without an error, the method is still in \<open>patchedMethods\<close>,
  its access flags still carry \<open>kAccNative\<close>, which the record did not have before the hook,
  and its \<open>implementation\<close> is still the replacement's callback.
\<close>

theorem dispose_leaves_method_hooked:
  "(let A = \<lparr> flavor = Dalvik, pointerSize = 4,
               dvmUseJNIBridge = (\<lambda>methodId cb m. writeU32 (methodId + 40) (int cb) m),
               implement = (\<lambda>f fn. 4096 + fn),
               artMethodOffset = \<lparr> off_jniCode = 32, off_accessFlags = 4, off_quickCode = 36,
                                   off_interpreterCode = 28 \<rparr>,
               runtime_instance_ptr = 512, runtime_classLinker = Some 8,
               classLinker_quickGenericJniTrampoline = Some 16,
               artInterpreterToCompiledCodeBridge = 8192 \<rparr>;
        C = \<lparr> cl_methodId = 256, cl_type = INSTANCE_METHOD, cl_argTypes = [],
                 dalvikTargetMethodId = 256, dalvikOriginalMethod = None,
                 artOriginalMethodInfo = None, implementation = None \<rparr>;
        W = \<lparr> memory = (\<lambda>x. 0), next_alloc = 1024, globals = [], findable = (\<lambda>n. None),
               weakRefs = [], next_object = 0, classes = [], patchedClasses = [],
               patchedMethods = {}, loader = None, closures = [1 \<mapsto> C] \<rparr>;
        W1 = snd (set_implementation A 1 (Some 7) W);
        D = dispose A W1
    in fst D = None
       \<and> 1 \<in> patchedMethods W1 \<and> 1 \<in> patchedMethods (snd D)
       \<and> readU32 (256 + DVM_METHOD_OFFSET_ACCESS_FLAGS) (memory W) = 0
       \<and> readU32 (256 + DVM_METHOD_OFFSET_ACCESS_FLAGS) (memory (snd D)) = 256
       \<and> map_option implementation (closures (snd D) 1) = Some (Some 4103))"
proof -
  define A where "A = \<lparr> flavor = Dalvik, pointerSize = 4,
               dvmUseJNIBridge = (\<lambda>methodId cb m. writeU32 (methodId + 40) (int cb) m),
               implement = (\<lambda>f fn. 4096 + fn),
               artMethodOffset = \<lparr> off_jniCode = 32, off_accessFlags = 4, off_quickCode = 36,
                                   off_interpreterCode = 28 \<rparr>,
               runtime_instance_ptr = 512, runtime_classLinker = Some 8,
               classLinker_quickGenericJniTrampoline = Some 16,
               artInterpreterToCompiledCodeBridge = 8192 \<rparr>"
  define C where "C = \<lparr> cl_methodId = 256, cl_type = INSTANCE_METHOD, cl_argTypes = [],
                 dalvikTargetMethodId = 256, dalvikOriginalMethod = None,
                 artOriginalMethodInfo = None, implementation = None \<rparr>"
  define W where "W = \<lparr> memory = (\<lambda>x. 0), next_alloc = 1024, globals = [], findable = (\<lambda>n. None),
               weakRefs = [], next_object = 0, classes = [], patchedClasses = [],
               patchedMethods = {}, loader = None, closures = [1 \<mapsto> C] \<rparr>"
  define W1 where "W1 = snd (set_implementation A 1 (Some 7) W)"
  have c: "closures W 1 = Some C" by (simp add: W_def)
  have w1: "W1 = replaceDalvikImplementation A 1 (Some 7) W"
    using c by (simp add: W1_def set_implementation_def C_def A_def)
  have pc: "patchedClasses W1 = []"
    by (simp add: w1 replaceDalvikImplementation_def W_def C_def Let_def dup_def)
  have pm: "1 \<in> patchedMethods W1"
    by (simp add: w1 replaceDalvikImplementation_def W_def C_def Let_def dup_def)
  have im: "map_option implementation (closures W1 1) = Some (Some 4103)"
    by (simp add: w1 replaceDalvikImplementation_def W_def C_def A_def Let_def dup_def)
  have f0: "readU32 (256 + DVM_METHOD_OFFSET_ACCESS_FLAGS) (memory W) = 0"
    by (simp add: W_def readU32_zero)
  have f1: "readU32 (256 + DVM_METHOD_OFFSET_ACCESS_FLAGS) (memory W1) = 256"
    by (simp add: w1 replaceDalvikImplementation_def W_def C_def A_def Let_def dup_def
        DVM_METHOD_SIZE_def DVM_METHOD_OFFSET_JNI_ARG_INFO_def
        DVM_METHOD_OFFSET_INS_SIZE_def DVM_METHOD_OFFSET_OUTS_SIZE_def
        DVM_METHOD_OFFSET_REGISTERS_SIZE_def DVM_METHOD_OFFSET_ACCESS_FLAGS_def
        readU32_writeU32_apart readU32_writeU16_apart readU32_writeU32 readU32_copy_apart
        readU32_zero bit_or_def kAccNative_def)
  from dispose_without_patched_classes[OF pc, of A] pm im f0 f1
  have "fst (dispose A W1) = None
       \<and> 1 \<in> patchedMethods W1 \<and> 1 \<in> patchedMethods (snd (dispose A W1))
       \<and> readU32 (256 + DVM_METHOD_OFFSET_ACCESS_FLAGS) (memory W) = 0
       \<and> readU32 (256 + DVM_METHOD_OFFSET_ACCESS_FLAGS) (memory (snd (dispose A W1))) = 256
       \<and> map_option implementation (closures (snd (dispose A W1)) 1) = Some (Some 4103)"
    by simp
  then show ?thesis
    unfolding Let_def W1_def A_def C_def W_def .
qed


section \<open>Properties of the class cache\<close>


lemma construct_handle:
  "construct C ch (Some r) w =
    (\<lparr> objId = next_object w, classWrapper = C, classHandle = Global (length (globals w)),
       handle = Some (Global (Suc (length (globals w)))), weakRef = length (weakRefs w) \<rparr>,
     w\<lparr> globals := globals w @ [deref w ch, deref (w\<lparr> globals := globals w @ [deref w ch] \<rparr>) r],
        next_object := Suc (next_object w),
        weakRefs := weakRefs w @ [[Global (Suc (length (globals w))), Global (length (globals w))]] \<rparr>)"
  by (simp add: construct_def newGlobalRef_def)

lemma deref_append:
  "deref w r = Some obj \<Longrightarrow> globals w' = globals w @ gs \<Longrightarrow> deref w' r = Some obj"
  by (cases r) (auto simp: deref_def nth_append split: if_splits)










text \<open>
  C3 (as amended). For an instance \<open>i\<close> of class \<open>C\<close> whose handle is live,
  \<open>cast(i.$handle, C)\<close> returns an object whose \<open>$handle\<close> is a new global reference, not
  \<open>i.$handle\<close>, to the same Java object (\<open>IsSameObject\<close>); \<open>i.$handle\<close> stays valid.
\<close>

theorem cast_pins_new_reference:
  assumes i: "handle i = Some h"
    and live: "deref w h = Some (Instance n c)"
    and cls: "deref w (classHandle C) = Some (ClassObj d)"
    and sub: "subclass_of c d"
  shows "\<exists>j w'. cast (Handle h) C w = (Inr j, w')
           \<and> handle j = Some (Global (Suc (length (globals w))))
           \<and> handle j \<noteq> handle i
           \<and> deref w' (Global (Suc (length (globals w)))) = deref w h
           \<and> deref w' h = deref w h
           \<and> classWrapper j = classWrapper C"
proof -
  have inst: "isInstanceOf w (Some h) (classHandle C)"
    using live cls sub by (simp add: isInstanceOf_def)
  have ne: "Global (Suc (length (globals w))) \<noteq> h"
    using live by (cases h) (auto simp: deref_def split: if_splits)
  have keep: "deref w' h = deref w h" if "globals w' = globals w @ gs" for gs w'
    using deref_append[OF live that] live by simp
  show ?thesis
    using inst ne i live keep[of _ "[deref w (k_handle (classWrapper C))]"]
      keep[of _ "[deref w (k_handle (classWrapper C)), Some (Instance n c)]"]
    by (simp add: cast_def construct_handle Let_def deref_def[of _ "Global _"] nth_append)
qed

theorem cast_pins_new_reference_witness:
  "(let KL = \<lparr> k_className = ''K'', k_name = ''K'', k_handle = Global 0, k_methods = [],
                k_fields = [], k_super = None \<rparr>;
        W = \<lparr> memory = (\<lambda>x. 0), next_alloc = 0,
               globals = [Some (ClassObj (JClass ''K'' None [] [])),
                          Some (Instance 0 (JClass ''K'' None [] []))],
               findable = (\<lambda>n. None),
               weakRefs = [[Global 1, Global 0]], next_object = 1, classes = [(''K'', KL)],
               patchedClasses = [], patchedMethods = {}, loader = None, closures = Map.empty \<rparr>;
        C = \<lparr> objId = 0, classWrapper = KL, classHandle = Global 0, handle = None, weakRef = 0 \<rparr>
    in fst (cast (Handle (Global 1)) C W)
         = Inr \<lparr> objId = 1, classWrapper = KL, classHandle = Global 2,
                 handle = Some (Global 3), weakRef = 1 \<rparr>
       \<and> deref (snd (cast (Handle (Global 1)) C W)) (Global 3) = deref W (Global 1))"
proof -
  define KL where "KL = \<lparr> k_className = ''K'', k_name = ''K'', k_handle = Global 0, k_methods = [],
                k_fields = [], k_super = None \<rparr>"
  define W where "W = \<lparr> memory = (\<lambda>x. 0), next_alloc = 0,
               globals = [Some (ClassObj (JClass ''K'' None [] [])),
                          Some (Instance 0 (JClass ''K'' None [] []))],
               findable = (\<lambda>n. None),
               weakRefs = [[Global 1, Global 0]], next_object = 1, classes = [(''K'', KL)],
               patchedClasses = [], patchedMethods = {}, loader = None, closures = Map.empty \<rparr>"
  define C where "C = \<lparr> objId = 0, classWrapper = KL, classHandle = Global 0, handle = None, weakRef = 0 \<rparr>"
  define I where "I = \<lparr> objId = 5, classWrapper = KL, classHandle = Global 0,
                       handle = Some (Global 1), weakRef = 0 \<rparr>"
  have i: "handle I = Some (Global 1)" by (simp add: I_def)
  have live: "deref W (Global 1) = Some (Instance 0 (JClass ''K'' None [] []))"
    by (simp add: W_def deref_def)
  have cls: "deref W (classHandle C) = Some (ClassObj (JClass ''K'' None [] []))"
    by (simp add: W_def C_def deref_def)
  have sub: "subclass_of (JClass ''K'' None [] []) (JClass ''K'' None [] [])" by simp
  from cast_pins_new_reference[OF i live cls sub]
  obtain j w' where j: "cast (Handle (Global 1)) C W = (Inr j, w')"
      "deref w' (Global (Suc (length (globals W)))) = deref W (Global 1)"
    by blast
  have "fst (cast (Handle (Global 1)) C W)
         = Inr \<lparr> objId = 1, classWrapper = KL, classHandle = Global 2,
                 handle = Some (Global 3), weakRef = 1 \<rparr>"
    using live cls
    by (simp add: cast_def isInstanceOf_def construct_handle Let_def W_def C_def)
  moreover have "deref (snd (cast (Handle (Global 1)) C W)) (Global 3) = deref W (Global 1)"
    using j by (simp add: W_def numeral_3_eq_3)
  ultimately show ?thesis
    unfolding Let_def KL_def W_def C_def by simp
qed

text \<open>
  The claim as stated fails: the instance's handle is the global reference 1; the handle of
  the cast's result is the global reference 3.
\<close>

theorem cast_invariance_counterexample:
  "(let KL = \<lparr> k_className = ''K'', k_name = ''K'', k_handle = Global 0, k_methods = [],
                k_fields = [], k_super = None \<rparr>;
        W = \<lparr> memory = (\<lambda>x. 0), next_alloc = 0,
               globals = [Some (ClassObj (JClass ''K'' None [] [])),
                          Some (Instance 0 (JClass ''K'' None [] []))],
               findable = (\<lambda>n. None),
               weakRefs = [[Global 1, Global 0]], next_object = 1, classes = [(''K'', KL)],
               patchedClasses = [], patchedMethods = {}, loader = None, closures = Map.empty \<rparr>;
        C = \<lparr> objId = 0, classWrapper = KL, classHandle = Global 0, handle = None, weakRef = 0 \<rparr>;
        I = \<lparr> objId = 1, classWrapper = KL, classHandle = Global 0, handle = Some (Global 1),
              weakRef = 0 \<rparr>
    in isInstanceOf W (handle I) (classHandle C)
       \<and> map_sum id handle (fst (cast (Handle (Global 1)) C W)) = Inr (Some (Global 3))
       \<and> handle I = Some (Global 1))"
  by (simp add: Let_def cast_def isInstanceOf_def deref_def construct_handle)

end
